theory Spec2Isabelle
  imports Complex_Main
begin

section \<open>The juice customizer (src/unnamed/part\_001)\<close>

text \<open>
  JavaScript numbers that carry money are modelled as exact rationals (the rounding of
  IEEE doubles is not modelled); quantities are integers; strings are \<open>string\<close>.
\<close>

subsection \<open>Data\<close>

text \<open>The object built in \<open>handleSubmit\<close>: one line of the cart.\<close>

record cart_item =
  item_id :: string
  juiceId :: string
  name :: string
  basePrice :: rat
  price :: rat
  quantity :: int
  item_size :: string
  sweetness :: string
  additions :: "string list"
  color :: string
  item_image :: string

text \<open>The cart object of \<open>useState(initialCartState)\<close>; \<open>lastUpdated\<close> is absent at first.\<close>

record cart_state =
  items :: "cart_item list"
  cart_total :: rat
  checkoutId :: "string option"
  lastUpdated :: "string option"

definition initialCartState :: cart_state where
  "initialCartState = \<lparr>items = [], cart_total = 0, checkoutId = None, lastUpdated = None\<rparr>"

text \<open>A catalogue entry of \<open>JUICES\<close>; the image is an emoji, held as its UTF-8 bytes.\<close>

record juice =
  juice_id :: string
  juice_name :: string
  juice_price :: rat
  juice_color :: string
  juice_image :: string

definition JUICES :: "juice list" where
  "JUICES =
     [\<lparr>juice_id = ''fresh-orange'', juice_name = ''Fresh Orange'', juice_price = 11 / 2,
       juice_color = ''bg-orange-400'', juice_image = [CHR 0xF0, CHR 0x9F, CHR 0x8D, CHR 0x8A]\<rparr>,
      \<lparr>juice_id = ''green-detox'', juice_name = ''Green Detox'', juice_price = 34 / 5,
       juice_color = ''bg-green-400'', juice_image = [CHR 0xF0, CHR 0x9F, CHR 0xA5, CHR 0xA6]\<rparr>,
      \<lparr>juice_id = ''tropical-punch'', juice_name = ''Tropical Punch'', juice_price = 36 / 5,
       juice_color = ''bg-yellow-400'', juice_image = [CHR 0xF0, CHR 0x9F, CHR 0x8D, CHR 0x8D]\<rparr>,
      \<lparr>juice_id = ''berry-blast'', juice_name = ''Berry Blast'', juice_price = 6,
       juice_color = ''bg-red-400'', juice_image = [CHR 0xF0, CHR 0x9F, CHR 0x8D, CHR 0x93]\<rparr>]"

text \<open>JavaScript truthiness of a string that may be null.\<close>

definition truthy :: "string option \<Rightarrow> bool" where
  "truthy u = (case u of None \<Rightarrow> False | Some v \<Rightarrow> v \<noteq> [])"

subsection \<open>The pricer\<close>

text \<open>The table \<open>availableAdditions\<close> of \<open>CustomizationForm\<close>, as (name, price) pairs.\<close>

definition availableAdditions :: "(string \<times> rat) list" where
  "availableAdditions =
     [(''Protein Powder'', 3 / 2), (''Chia Seeds'', 3 / 4),
      (''Ginger Shot'', 1), (''Spinach Boost'', 1 / 2)]"

text \<open>
  \<open>calculateItemPrice\<close>, with \<open>juice.price\<close> as its first argument: the table is
  filtered by membership of the name in the selection and the prices are reduced from 0;
  then the two size tests run in order.
\<close>

definition calculateItemPrice :: "rat \<Rightarrow> string \<Rightarrow> string list \<Rightarrow> rat" where
  "calculateItemPrice juicePrice selectedSize selectedAdditions =
     (let basePrice = juicePrice;
          additionCost = foldl (\<lambda>sum a. sum + snd a) 0
             (filter (\<lambda>a. fst a \<in> set selectedAdditions) availableAdditions);
          additionCost = (if selectedSize = ''Large'' then additionCost + 3 / 2 else additionCost);
          additionCost = (if selectedSize = ''Small'' then additionCost - 1 / 2 else additionCost)
      in basePrice + additionCost)"

text \<open>\<open>handleToggleAddition\<close>: a selected name is taken out, another is put at the end.\<close>

definition handleToggleAddition :: "string \<Rightarrow> string list \<Rightarrow> string list" where
  "handleToggleAddition n prev =
     (if n \<in> set prev then filter (\<lambda>a. a \<noteq> n) prev else prev @ [n])"

text \<open>
  The \<open>quantity\<close> state of the form: it starts at 1; the plus button adds one and the
  minus button goes to \<open>Math.max(1, q - 1)\<close>. The clicks are listed latest first, \<open>True\<close>
  for plus.
\<close>

fun formQuantity :: "bool list \<Rightarrow> int" where
  "formQuantity [] = 1"
| "formQuantity (up # clicks) =
     (let q = formQuantity clicks in if up then q + 1 else max 1 (q - 1))"

text \<open>
  The object \<open>handleSubmit\<close> builds from the form state; the fresh UUID is a parameter.
\<close>

definition handleSubmit_item ::
  "string \<Rightarrow> juice \<Rightarrow> string \<Rightarrow> string \<Rightarrow> string list \<Rightarrow> int \<Rightarrow> cart_item" where
  "handleSubmit_item uuid j selectedSize selectedSweetness selectedAdditions qty =
     \<lparr>item_id = uuid, juiceId = juice_id j, name = juice_name j, basePrice = juice_price j,
      price = calculateItemPrice (juice_price j) selectedSize selectedAdditions,
      quantity = qty, item_size = selectedSize, sweetness = selectedSweetness,
      additions = selectedAdditions, color = juice_color j, item_image = juice_image j\<rparr>"

text \<open>The reduction of \<open>updateFirestoreCart\<close>: the total of a list of lines.\<close>

definition newTotal :: "cart_item list \<Rightarrow> rat" where
  "newTotal its = foldl (\<lambda>sum item. sum + price item * of_int (quantity item)) 0 its"

text \<open>
  The rule as the specification words it, for comparison with the code: the size delta,
  and the catalogue price of an addition name (zero for a name the table does not hold).
\<close>

definition sizeDelta :: "string \<Rightarrow> rat" where
  "sizeDelta s = (if s = ''Small'' then - (1 / 2) else if s = ''Large'' then 3 / 2 else 0)"

definition additionPrice :: "string \<Rightarrow> rat" where
  "additionPrice n = (case map_of availableAdditions n of Some p \<Rightarrow> p | None \<Rightarrow> 0)"


subsection \<open>Array helpers\<close>

text \<open>\<open>Array.prototype.findIndex\<close>: the first index whose element passes, or -1.\<close>

fun findIndexFrom :: "('a \<Rightarrow> bool) \<Rightarrow> nat \<Rightarrow> 'a list \<Rightarrow> int" where
  "findIndexFrom P k [] = - 1"
| "findIndexFrom P k (x # xs) = (if P x then int k else findIndexFrom P (Suc k) xs)"

definition findIndex :: "('a \<Rightarrow> bool) \<Rightarrow> 'a list \<Rightarrow> int" where
  "findIndex P xs = findIndexFrom P 0 xs"

text \<open>\<open>Array.prototype.map\<close> with the two-argument callback \<open>(element, index)\<close>.\<close>

fun mapIndexedFrom :: "('a \<Rightarrow> nat \<Rightarrow> 'b) \<Rightarrow> nat \<Rightarrow> 'a list \<Rightarrow> 'b list" where
  "mapIndexedFrom f k [] = []"
| "mapIndexedFrom f k (x # xs) = f x k # mapIndexedFrom f (Suc k) xs"

definition mapIndexed :: "('a \<Rightarrow> nat \<Rightarrow> 'b) \<Rightarrow> 'a list \<Rightarrow> 'b list" where
  "mapIndexed f xs = mapIndexedFrom f 0 xs"

subsection \<open>\<open>JSON.stringify\<close> of an array of strings\<close>

text \<open>
  The text ECMAScript produces for an array of strings: each element quoted with the
  escapes of \<open>QuoteJSONString\<close>, separated by commas, inside brackets. A \<open>char\<close> is a
  byte, so text outside ASCII is its UTF-8 bytes, which pass through unescaped.
\<close>

definition hexDigit :: "nat \<Rightarrow> char" where
  "hexDigit n = ''0123456789abcdef'' ! (n mod 16)"

definition quoteChar :: "char \<Rightarrow> string" where
  "quoteChar c =
     (if c = CHR 0x08 then [CHR 0x5C, CHR ''b'']
      else if c = CHR 0x09 then [CHR 0x5C, CHR ''t'']
      else if c = CHR 0x0A then [CHR 0x5C, CHR ''n'']
      else if c = CHR 0x0C then [CHR 0x5C, CHR ''f'']
      else if c = CHR 0x0D then [CHR 0x5C, CHR ''r'']
      else if c = CHR 0x22 then [CHR 0x5C, CHR 0x22]
      else if c = CHR 0x5C then [CHR 0x5C, CHR 0x5C]
      else if (of_char c :: nat) < 32
        then [CHR 0x5C, CHR ''u'', CHR ''0'', CHR ''0'',
              hexDigit (of_char c div 16), hexDigit (of_char c)]
      else [c])"

definition QuoteJSONString :: "string \<Rightarrow> string" where
  "QuoteJSONString s = CHR 0x22 # concat (map quoteChar s) @ [CHR 0x22]"

fun joinComma :: "string list \<Rightarrow> string" where
  "joinComma [] = []"
| "joinComma [x] = x"
| "joinComma (x # y # ys) = x @ CHR '','' # joinComma (y # ys)"

definition JSON_stringify :: "string list \<Rightarrow> string" where
  "JSON_stringify xs = CHR ''['' # joinComma (map QuoteJSONString xs) @ [CHR '']'']"

subsection \<open>Cart operations\<close>

text \<open>The predicate \<open>handleAddToCart\<close> hands to \<open>findIndex\<close>; \<open>i\<close> is the line tested.\<close>

definition sameLine :: "cart_item \<Rightarrow> cart_item \<Rightarrow> bool" where
  "sameLine item i \<longleftrightarrow>
     juiceId i = juiceId item \<and> item_size i = item_size item \<and>
     sweetness i = sweetness item \<and>
     JSON_stringify (additions i) = JSON_stringify (additions item)"

text \<open>The \<open>newCart\<close> that \<open>handleAddToCart\<close> computes and hands to \<open>updateFirestoreCart\<close>.\<close>

definition handleAddToCart :: "cart_state \<Rightarrow> cart_item \<Rightarrow> cart_state" where
  "handleAddToCart cart item =
     (let existingItemIndex = findIndex (sameLine item) (items cart);
          newItems =
            (if existingItemIndex > - 1
             then mapIndexed (\<lambda>i index.
                    if int index = existingItemIndex
                    then i\<lparr>quantity := quantity i + quantity item\<rparr> else i) (items cart)
             else items cart @ [item])
      in cart\<lparr>items := newItems\<rparr>)"

text \<open>The \<open>newCart\<close> of \<open>updateCartItemQuantity\<close>: map, then keep positive quantities.\<close>

definition updateCartItemQuantity :: "cart_state \<Rightarrow> string \<Rightarrow> int \<Rightarrow> cart_state" where
  "updateCartItemQuantity cart itemId newQuantity =
     (let newItems = filter (\<lambda>item. quantity item > 0)
            (map (\<lambda>item. if item_id item = itemId
                          then item\<lparr>quantity := newQuantity\<rparr> else item) (items cart))
      in cart\<lparr>items := newItems\<rparr>)"

text \<open>The \<open>newCart\<close> of \<open>removeItemFromCart\<close>.\<close>

definition removeItemFromCart :: "cart_state \<Rightarrow> string \<Rightarrow> cart_state" where
  "removeItemFromCart cart itemId =
     (let newItems = filter (\<lambda>item. item_id item \<noteq> itemId) (items cart)
      in cart\<lparr>items := newItems\<rparr>)"

text \<open>
  \<open>updatedCartState\<close> of \<open>updateFirestoreCart\<close>: the document that is committed, and that
  the listener then installs as the cart. The clock reading is a parameter.
\<close>

definition updatedCartState :: "string \<Rightarrow> cart_state \<Rightarrow> cart_state" where
  "updatedCartState now newCart =
     newCart\<lparr>cart_total := newTotal (items newCart), lastUpdated := Some now\<rparr>"


text \<open>
  What \<open>sameLine\<close> compares, as a key: juice, size, sweetness and the additions as the
  list they are, names in the order listed (equal JSON texts mean equal lists).
\<close>

definition lineKey :: "cart_item \<Rightarrow> string \<times> string \<times> string \<times> string list" where
  "lineKey i = (juiceId i, item_size i, sweetness i, additions i)"

text \<open>
  The invariant the code keeps: no two lines that \<open>handleAddToCart\<close> would merge (equal
  keys, so equal additions in equal order), and every quantity at least 1.
\<close>

definition noMergeableLines :: "cart_item list \<Rightarrow> bool" where
  "noMergeableLines its = distinct (map lineKey its)"

definition mergeInvariant :: "cart_item list \<Rightarrow> bool" where
  "mergeInvariant its \<longleftrightarrow> noMergeableLines its \<and> list_all (\<lambda>i. 1 \<le> quantity i) its"

text \<open>
  The cart invariant as the specification words it, for comparison with the code: two
  lines are equivalent when juice, size, sweetness and the set of additions agree; no two
  lines of a cart are equivalent, and every quantity is at least 1.
\<close>

definition specKey :: "cart_item \<Rightarrow> string \<times> string \<times> string \<times> string set" where
  "specKey i = (juiceId i, item_size i, sweetness i, set (additions i))"

definition specEquivalent :: "cart_item \<Rightarrow> cart_item \<Rightarrow> bool" where
  "specEquivalent a b \<longleftrightarrow> specKey a = specKey b"

definition cartInvariant :: "cart_item list \<Rightarrow> bool" where
  "cartInvariant its \<longleftrightarrow> distinct (map specKey its) \<and> list_all (\<lambda>i. 1 \<le> quantity i) its"

section \<open>The cloud kitchen (src/src/JuiSipApp2.jsx)\<close>

subsection \<open>Data\<close>

text \<open>An entry of \<open>MENU_ITEMS\<close>, and a cart line: the entry with a quantity.\<close>

record menu_item =
  k_id :: string
  k_name :: string
  k_price :: rat
  k_icon :: string
  k_category :: string

record kitchen_item = menu_item +
  k_quantity :: int

text \<open>The menu; names and icons outside ASCII are held as their UTF-8 bytes.\<close>

definition MENU_ITEMS :: "menu_item list" where
  "MENU_ITEMS =
     [\<lparr>k_id = ''1'', k_name = ''Zesty Lemonade'', k_price = 599 / 100,
       k_icon = [CHR 0xF0, CHR 0x9F, CHR 0x8D, CHR 0x8B], k_category = ''Drinks''\<rparr>,
      \<lparr>k_id = ''2'', k_name = ''Classic Green Smoothie'', k_price = 749 / 100,
       k_icon = [CHR 0xF0, CHR 0x9F, CHR 0xA5, CHR 0xAC], k_category = ''Drinks''\<rparr>,
      \<lparr>k_id = ''3'', k_name = ''A'' @ [CHR 0xC3, CHR 0xA7] @ ''ai Energy Bowl'', k_price = 1099 / 100,
       k_icon = [CHR 0xF0, CHR 0x9F, CHR 0xAB, CHR 0x90], k_category = ''Bowls''\<rparr>,
      \<lparr>k_id = ''4'', k_name = ''Protein Power Wrap'', k_price = 999 / 100,
       k_icon = [CHR 0xF0, CHR 0x9F, CHR 0x8C, CHR 0xAF], k_category = ''Wraps''\<rparr>,
      \<lparr>k_id = ''5'', k_name = ''Watermelon Refresher'', k_price = 13 / 2,
       k_icon = [CHR 0xF0, CHR 0x9F, CHR 0x8D, CHR 0x89], k_category = ''Drinks''\<rparr>,
      \<lparr>k_id = ''6'', k_name = ''Mediterranean Salad Wrap'', k_price = 23 / 2,
       k_icon = [CHR 0xF0, CHR 0x9F, CHR 0xA5, CHR 0x97], k_category = ''Wraps''\<rparr>]"

text \<open>
  The document at \<open>juisip_cart/current\<close>. \<open>itemsJson\<close> holds JSON text; the model keeps
  what \<open>JSON.parse\<close> makes of it: the cart it encodes, or a parse failure. The field is
  \<open>None\<close> when absent or empty, where the listener falls back to the text of an empty array.
\<close>

datatype json_text = Malformed | Encodes "kitchen_item list"

record cart_doc =
  itemsJson :: "json_text option"
  updatedAt :: string

datatype 'a snapshot = Absent | Present 'a

text \<open>The \<open>orderData\<close> object of \<open>handlePlaceOrder\<close>.\<close>

record order_data =
  orderId :: int
  o_userId :: string
  o_itemsJson :: json_text
  o_grandTotal :: rat
  o_subtotal :: rat
  o_deliveryFee :: rat
  o_taxAmount :: rat
  placedAt :: string
  status :: string

text \<open>
  What the program does to the outside, in order: store writes with their outcome, waits
  in milliseconds, and console output (a warning carries the attempt number it prints).
\<close>

datatype effect =
    SetDoc cart_doc bool
  | AddDoc order_data bool
  | Sleep nat
  | ConsoleWarn nat
  | ConsoleError string

text \<open>
  The React state of \<open>App\<close>, the two remote stores it talks to, and the trace of effects.
  \<open>k_db\<close> says whether the Firestore handle is set.
\<close>

record kitchen_app =
  k_db :: bool
  k_userId :: "string option"
  k_cart :: "kitchen_item list"
  k_isLoading :: bool
  k_error :: "string option"
  k_isOrderPlaced :: bool
  k_orderHistory :: "order_data list"
  remote_cart :: "cart_doc option"
  remote_history :: "order_data list"
  effects :: "effect list"

text \<open>
  What the surroundings decide during one command: whether the write of each attempt
  succeeds, whether \<open>addDoc\<close> succeeds, the clock reading and the value of \<open>Math.random()\<close>.
\<close>

record env =
  setDocOk :: "nat \<Rightarrow> bool"
  addDocOk :: bool
  nowIso :: string
  random :: rat

subsection \<open>Writing the cart\<close>

definition maxRetries :: nat where
  "maxRetries = 3"

text \<open>
  The \<open>for\<close> loop of \<open>updateCartInDb\<close>, from a given attempt number. A successful \<open>setDoc\<close>
  returns; a failed one warns and sleeps \<open>1000 * 2 ** attempt\<close> milliseconds when another
  attempt is left, and otherwise logs and sets the error.
\<close>

function updateCartInDb_loop :: "env \<Rightarrow> kitchen_item list \<Rightarrow> nat \<Rightarrow> kitchen_app \<Rightarrow> kitchen_app" where
  "updateCartInDb_loop e newCart attempt s =
     (if attempt < maxRetries then
        (let d = \<lparr>itemsJson = Some (Encodes newCart), updatedAt = nowIso e\<rparr> in
         if setDocOk e attempt
         then s\<lparr>remote_cart := Some d, effects := effects s @ [SetDoc d True]\<rparr>
         else if attempt < maxRetries - 1
         then updateCartInDb_loop e newCart (attempt + 1)
                (s\<lparr>effects := effects s @
                   [SetDoc d False, ConsoleWarn (attempt + 1), Sleep (1000 * 2 ^ attempt)]\<rparr>)
         else updateCartInDb_loop e newCart (attempt + 1)
                (s\<lparr>effects := effects s @
                   [SetDoc d False,
                    ConsoleError ''Failed to save cart to Firestore after multiple retries:''],
                   k_error := Some ''Failed to save cart. Please check your connection.''\<rparr>))
      else s)"
  by pat_completeness auto
termination
  by (relation "measure (\<lambda>(e, newCart, attempt, s). maxRetries - attempt)") auto

declare updateCartInDb_loop.simps [simp del]

definition updateCartInDb :: "env \<Rightarrow> kitchen_item list \<Rightarrow> kitchen_app \<Rightarrow> kitchen_app" where
  "updateCartInDb e newCart s =
     (if \<not> k_db s \<or> \<not> truthy (k_userId s) then s else updateCartInDb_loop e newCart 0 s)"

subsection \<open>Cart commands\<close>

text \<open>
  Each command sets the local cart and then starts the write; the write is not awaited,
  and the model runs it to its end before the next event.
\<close>

definition addToCart :: "env \<Rightarrow> menu_item \<Rightarrow> kitchen_app \<Rightarrow> kitchen_app" where
  "addToCart e item s =
     (let cart = k_cart s;
          existingItemIndex = findIndex (\<lambda>cartItem. k_id cartItem = k_id item) cart;
          newCart =
            (if existingItemIndex > - 1
             then mapIndexed (\<lambda>cartItem index.
                    if int index = existingItemIndex
                    then cartItem\<lparr>k_quantity := k_quantity cartItem + 1\<rparr> else cartItem) cart
             else cart @ [\<lparr>k_id = k_id item, k_name = k_name item, k_price = k_price item,
                            k_icon = k_icon item, k_category = k_category item,
                            k_quantity = 1\<rparr>])
      in updateCartInDb e newCart (s\<lparr>k_cart := newCart\<rparr>))"

definition updateQuantity :: "env \<Rightarrow> string \<Rightarrow> int \<Rightarrow> kitchen_app \<Rightarrow> kitchen_app" where
  "updateQuantity e itemId change s =
     (let newCart = filter (\<lambda>item. k_quantity item > 0)
            (map (\<lambda>item. if k_id item = itemId
                          then item\<lparr>k_quantity := k_quantity item + change\<rparr> else item) (k_cart s))
      in updateCartInDb e newCart (s\<lparr>k_cart := newCart\<rparr>))"

definition removeFromCart :: "env \<Rightarrow> string \<Rightarrow> kitchen_app \<Rightarrow> kitchen_app" where
  "removeFromCart e itemId s =
     (let newCart = filter (\<lambda>item. k_id item \<noteq> itemId) (k_cart s)
      in updateCartInDb e newCart (s\<lparr>k_cart := newCart\<rparr>))"

definition clearCart :: "env \<Rightarrow> kitchen_app \<Rightarrow> kitchen_app" where
  "clearCart e s = updateCartInDb e [] (s\<lparr>k_cart := []\<rparr>)"

subsection \<open>Calculated values\<close>

definition cartSubtotal :: "kitchen_item list \<Rightarrow> rat" where
  "cartSubtotal cart = foldl (\<lambda>sum item. sum + k_price item * of_int (k_quantity item)) 0 cart"

definition taxRate :: rat where
  "taxRate = 8 / 100"

definition taxAmount :: "kitchen_item list \<Rightarrow> rat" where
  "taxAmount cart = cartSubtotal cart * taxRate"

definition deliveryFee :: "kitchen_item list \<Rightarrow> rat" where
  "deliveryFee cart = (if cartSubtotal cart > 0 then 5 else 0)"

definition grandTotal :: "kitchen_item list \<Rightarrow> rat" where
  "grandTotal cart = cartSubtotal cart + taxAmount cart + deliveryFee cart"

subsection \<open>Checkout\<close>

text \<open>
  \<open>handlePlaceOrder\<close>. The guard returns at once. Otherwise the order is added to the
  history collection; when that write fails the \<open>catch\<close> sets the error, and in both
  cases \<open>finally\<close> clears the loading flag.
\<close>

definition handlePlaceOrder :: "env \<Rightarrow> kitchen_app \<Rightarrow> kitchen_app" where
  "handlePlaceOrder e s =
     (if length (k_cart s) = 0 \<or> grandTotal (k_cart s) = 0 \<or> \<not> k_db s \<or> \<not> truthy (k_userId s)
      then s
      else
        (let s1 = s\<lparr>k_isLoading := True\<rparr>;
             oid = \<lfloor>random e * 90000\<rfloor> + 10000;
             now = nowIso e;
             orderData = \<lparr>orderId = oid, o_userId = the (k_userId s),
                          o_itemsJson = Encodes (k_cart s),
                          o_grandTotal = grandTotal (k_cart s),
                          o_subtotal = cartSubtotal (k_cart s),
                          o_deliveryFee = deliveryFee (k_cart s),
                          o_taxAmount = taxAmount (k_cart s),
                          placedAt = now, status = ''Preparing''\<rparr>
         in if addDocOk e
            then
              (let s2 = s1\<lparr>remote_history := remote_history s1 @ [orderData],
                          effects := effects s1 @ [AddDoc orderData True, Sleep 1000]\<rparr>;
                   s3 = updateCartInDb e [] s2;
                   s4 = s3\<lparr>k_isOrderPlaced := True\<rparr>
               in s4\<lparr>k_isLoading := False\<rparr>)
            else
              s1\<lparr>effects := effects s1 @
                     [AddDoc orderData False, ConsoleError ''Failed to place order:''],
                   k_error := Some ''Failed to place order due to a database error.'',
                   k_isLoading := False\<rparr>))"

subsection \<open>The cart listener\<close>

text \<open>
  The callback this component hands to \<open>onSnapshot\<close> for the cart document. A present
  document replaces the cart by what its text parses to (the empty cart when parsing
  throws); an absent document sets the empty cart.
\<close>

definition kitchen_onSnapshot :: "cart_doc snapshot \<Rightarrow> kitchen_app \<Rightarrow> kitchen_app" where
  "kitchen_onSnapshot docSnap s =
     (case docSnap of
        Present data \<Rightarrow>
          (case (case itemsJson data of None \<Rightarrow> Encodes [] | Some t \<Rightarrow> t) of
             Encodes parsedCart \<Rightarrow> s\<lparr>k_cart := parsedCart\<rparr>
           | Malformed \<Rightarrow>
               s\<lparr>k_cart := [],
                 effects := effects s @ [ConsoleError ''Error parsing cart data from Firestore:'']\<rparr>)
      | Absent \<Rightarrow> s\<lparr>k_cart := []\<rparr>)"

section \<open>The customizer's state and its store\<close>

text \<open>
  The React state of the customizer's \<open>App\<close> (src/unnamed/part\_001) that its cart
  commands and its listener touch, the cart document of the store, and the writes issued
  to that document in order. A write carries the object \<open>{ userId, cart }\<close>.
\<close>

record juice_app =
  j_db :: bool
  j_userId :: "string option"
  j_cart :: cart_state
  j_message :: "string option"
  j_showModal :: bool
  j_selectedJuice :: "juice option"
  j_doc :: "(string option \<times> cart_state) option"
  j_issued :: "(string option \<times> cart_state) list"

text \<open>
  The callback handed to \<open>onSnapshot\<close>: a present document installs its \<open>cart\<close> field; an
  absent one installs \<open>initialCartState\<close> stamped with the clock reading and issues
  \<open>setDoc\<close> for it, which is not awaited. Whether that write lands is a parameter.
\<close>

definition juice_onSnapshot ::
  "bool \<Rightarrow> string \<Rightarrow> (string option \<times> cart_state) snapshot \<Rightarrow> juice_app \<Rightarrow> juice_app" where
  "juice_onSnapshot setDocLands now docSnap s =
     (case docSnap of
        Present data \<Rightarrow> s\<lparr>j_cart := snd data\<rparr>
      | Absent \<Rightarrow>
          (let initialCart = initialCartState\<lparr>lastUpdated := Some now\<rparr>;
               s1 = s\<lparr>j_cart := initialCart,
                      j_issued := j_issued s @ [(j_userId s, initialCart)]\<rparr>
           in if setDocLands then s1\<lparr>j_doc := Some (j_userId s, initialCart)\<rparr> else s1))"

text \<open>
  \<open>updateFirestoreCart\<close>: nothing without a store handle and a user; otherwise the batch
  with \<open>updatedCartState\<close> is committed. Whether the commit succeeds is a parameter. The
  local cart is left to the listener.
\<close>

definition updateFirestoreCart :: "bool \<Rightarrow> string \<Rightarrow> cart_state \<Rightarrow> juice_app \<Rightarrow> juice_app" where
  "updateFirestoreCart commitOk now newCart s =
     (if \<not> j_db s \<or> \<not> truthy (j_userId s) then s
      else
        (let s1 = s\<lparr>j_issued := j_issued s @ [(j_userId s, updatedCartState now newCart)]\<rparr>
         in if commitOk
            then s1\<lparr>j_doc := Some (j_userId s, updatedCartState now newCart),
                    j_message := Some ''Cart updated successfully!''\<rparr>
            else s1\<lparr>j_message := Some ''Error: Failed to update cart.''\<rparr>))"


definition updateCartItemQuantity_cmd :: "bool \<Rightarrow> string \<Rightarrow> string \<Rightarrow> int \<Rightarrow> juice_app \<Rightarrow> juice_app" where
  "updateCartItemQuantity_cmd commitOk now itemId newQuantity s =
     updateFirestoreCart commitOk now (updateCartItemQuantity (j_cart s) itemId newQuantity) s"

definition removeItemFromCart_cmd :: "bool \<Rightarrow> string \<Rightarrow> string \<Rightarrow> juice_app \<Rightarrow> juice_app" where
  "removeItemFromCart_cmd commitOk now itemId s =
     updateFirestoreCart commitOk now (removeItemFromCart (j_cart s) itemId) s"




subsection \<open>Proof helpers and example values\<close>

text \<open>What the indexed map of \<open>handleAddToCart\<close> amounts to: the first passing element changed.\<close>

fun mergeFirst :: "('a \<Rightarrow> bool) \<Rightarrow> ('a \<Rightarrow> 'a) \<Rightarrow> 'a list \<Rightarrow> 'a list" where
  "mergeFirst P g [] = []"
| "mergeFirst P g (x # xs) = (if P x then g x # xs else x # mergeFirst P g xs)"

text \<open>A Fresh Orange line, Medium and Regular, as the form submits it.\<close>

definition orangeLine :: "string \<Rightarrow> string list \<Rightarrow> int \<Rightarrow> cart_item" where
  "orangeLine uuid adds qty = handleSubmit_item uuid (hd JUICES) ''Medium'' ''Regular'' adds qty"

definition cartOf :: "cart_item list \<Rightarrow> cart_state" where
  "cartOf its = initialCartState\<lparr>items := its\<rparr>"

text \<open>The catalogue entry of the specification's pricing scenario: id 1, base price 5.99.\<close>

definition lemonade :: juice where
  "lemonade = \<lparr>juice_id = ''1'', juice_name = ''Zesty Lemonade'', juice_price = 599 / 100,
     juice_color = [], juice_image = [CHR 0xF0, CHR 0x9F, CHR 0x8D, CHR 0x8B]\<rparr>"

text \<open>The names of the additions table.\<close>

definition knownAddition :: "string \<Rightarrow> bool" where
  "knownAddition n \<longleftrightarrow> n \<in> set (map fst availableAdditions)"

text \<open>The cart invariant of the cloud kitchen, where two lines are equivalent when their ids agree.\<close>

definition kitchenInvariant :: "kitchen_item list \<Rightarrow> bool" where
  "kitchenInvariant cart \<longleftrightarrow> distinct (map k_id cart) \<and> list_all (\<lambda>i. 1 \<le> k_quantity i) cart"

text \<open>A signed-in session with a given cart and nothing else, and two surroundings.\<close>

definition sessionWith :: "kitchen_item list \<Rightarrow> kitchen_app" where
  "sessionWith cart =
     \<lparr>k_db = True, k_userId = Some ''user-1'', k_cart = cart, k_isLoading = False,
      k_error = None, k_isOrderPlaced = False, k_orderHistory = [],
      remote_cart = None, remote_history = [], effects = []\<rparr>"

definition offlineEnv :: env where
  "offlineEnv = \<lparr>setDocOk = (\<lambda>attempt. False), addDocOk = False,
                 nowIso = ''2025-01-01T00:00:00.000Z'', random = 1 / 2\<rparr>"

definition onlineEnv :: env where
  "onlineEnv = \<lparr>setDocOk = (\<lambda>attempt. True), addDocOk = True,
                nowIso = ''2025-01-01T00:00:00.000Z'', random = 1 / 2\<rparr>"

definition kitchenLine :: "string \<Rightarrow> rat \<Rightarrow> int \<Rightarrow> kitchen_item" where
  "kitchenLine i p q =
     \<lparr>k_id = i, k_name = ''Zesty Lemonade'', k_price = p,
      k_icon = [CHR 0xF0, CHR 0x9F, CHR 0x8D, CHR 0x8B], k_category = ''Drinks'',
      k_quantity = q\<rparr>"


section \<open>Properties of the juice customizer\<close>

subsection \<open>The JSON text of an array of strings determines the array\<close>

lemma hexDigit_inj: "a < 16 \<Longrightarrow> b < 16 \<Longrightarrow> hexDigit a = hexDigit b \<Longrightarrow> a = b"
proof -
  assume a: "a < 16" and b: "b < 16" and e: "hexDigit a = hexDigit b"
  have d: "distinct ''0123456789abcdef''" by simp
  have l: "length ''0123456789abcdef'' = 16" by simp
  from e a b have "''0123456789abcdef'' ! a = ''0123456789abcdef'' ! b"
    by (simp add: hexDigit_def)
  with d a b l show "a = b"
    by (simp add: nth_eq_iff_index_eq)
qed

lemma of_char_low:
  assumes "(of_char c :: nat) < 32" "(of_char d :: nat) < 32"
    and "hexDigit (of_char c div 16) = hexDigit (of_char d div 16)"
    and "hexDigit (of_char c) = hexDigit (of_char d)"
  shows "c = d"
proof -
  let ?m = "of_char c :: nat" and ?n = "of_char d :: nat"
  have "?m div 16 < 16" "?n div 16 < 16" using assms(1,2) by auto
  with assms(3) have hi: "?m div 16 = ?n div 16" by (rule hexDigit_inj [rotated 2])
  have "hexDigit (?m mod 16) = hexDigit (?n mod 16)"
    using assms(4) by (simp add: hexDigit_def)
  then have lo: "?m mod 16 = ?n mod 16"
    by (rule hexDigit_inj [rotated 2]) simp_all
  from hi lo have "?m = ?n" by (metis div_mult_mod_eq)
  then show ?thesis by simp
qed


lemma quoteChar_prefix:
  "quoteChar c @ r = quoteChar d @ r' \<Longrightarrow> c = d \<and> r = r'"
  by (auto simp: quoteChar_def split: if_splits dest: of_char_low)


lemma quoteChar_head: "\<exists>a as. quoteChar c = a # as \<and> a \<noteq> CHR 0x22"
  by (auto simp: quoteChar_def)

lemma quoted_body_inj:
  "concat (map quoteChar s) @ CHR 0x22 # r = concat (map quoteChar s') @ CHR 0x22 # r'
   \<Longrightarrow> s = s' \<and> r = r'"
proof (induction s arbitrary: s')
  case Nil
  show ?case
  proof (cases s')
    case Nil
    with Nil.prems show ?thesis by simp
  next
    case (Cons d ds)
    obtain a as where "quoteChar d = a # as" "a \<noteq> CHR 0x22"
      using quoteChar_head by blast
    with Nil.prems Cons show ?thesis by simp
  qed
next
  case (Cons c cs)
  show ?case
  proof (cases s')
    case Nil
    obtain a as where "quoteChar c = a # as" "a \<noteq> CHR 0x22"
      using quoteChar_head by blast
    with Cons.prems Nil show ?thesis by simp
  next
    case (Cons d ds)
    with Cons.prems have
      "quoteChar c @ (concat (map quoteChar cs) @ CHR 0x22 # r) =
       quoteChar d @ (concat (map quoteChar ds) @ CHR 0x22 # r')"
      by simp
    then have "c = d" and
      "concat (map quoteChar cs) @ CHR 0x22 # r = concat (map quoteChar ds) @ CHR 0x22 # r'"
      using quoteChar_prefix by blast+
    with Cons.IH [of ds] Cons show ?thesis by simp
  qed
qed

lemma QuoteJSONString_prefix:
  "QuoteJSONString s @ r = QuoteJSONString s' @ r' \<Longrightarrow> s = s' \<and> r = r'"
  using quoted_body_inj [of s r s' r'] by (simp add: QuoteJSONString_def)

lemma QuoteJSONString_head: "\<exists>as. QuoteJSONString s = CHR 0x22 # as"
  by (simp add: QuoteJSONString_def)

lemma joinComma_Cons:
  "joinComma (x # xs) = x @ (if xs = [] then [] else CHR '','' # joinComma xs)"
  by (cases xs) simp_all

lemma joinComma_inj:
  "joinComma (map QuoteJSONString xs) @ CHR '']'' # r =
   joinComma (map QuoteJSONString ys) @ CHR '']'' # r' \<Longrightarrow> xs = ys"
proof (induction xs arbitrary: ys)
  case Nil
  show ?case
  proof (cases ys)
    case Nil
    then show ?thesis by simp
  next
    case (Cons y ys')
    obtain as where "QuoteJSONString y = CHR 0x22 # as"
      using QuoteJSONString_head by blast
    with Nil.prems Cons show ?thesis by (simp add: joinComma_Cons)
  qed
next
  case (Cons x xs')
  show ?case
  proof (cases ys)
    case Nil
    obtain as where "QuoteJSONString x = CHR 0x22 # as"
      using QuoteJSONString_head by blast
    with Cons.prems Nil show ?thesis by (simp add: joinComma_Cons)
  next
    case ys: (Cons y ys')
    let ?tx = "(if xs' = [] then [] else CHR '','' # joinComma (map QuoteJSONString xs')) @ CHR '']'' # r"
    let ?ty = "(if ys' = [] then [] else CHR '','' # joinComma (map QuoteJSONString ys')) @ CHR '']'' # r'"
    from Cons.prems ys have "QuoteJSONString x @ ?tx = QuoteJSONString y @ ?ty"
      by (simp add: joinComma_Cons)
    then have xy: "x = y" and t: "?tx = ?ty"
      using QuoteJSONString_prefix by blast+
    have "xs' = ys'"
    proof (cases "xs' = []")
      case True
      with t show ?thesis by (cases "ys' = []") simp_all
    next
      case False
      with t have ne: "ys' \<noteq> []" by (cases "ys' = []") simp_all
      with False t have
        "joinComma (map QuoteJSONString xs') @ CHR '']'' # r =
         joinComma (map QuoteJSONString ys') @ CHR '']'' # r'"
        by simp
      then show ?thesis by (rule Cons.IH)
    qed
    with xy ys show ?thesis by simp
  qed
qed

lemma JSON_stringify_inj: "JSON_stringify xs = JSON_stringify ys \<longleftrightarrow> xs = ys"
  using joinComma_inj [of xs "[]" ys "[]"] by (auto simp: JSON_stringify_def)

lemma sameLine_iff:
  "sameLine item i \<longleftrightarrow>
     juiceId i = juiceId item \<and> item_size i = item_size item \<and>
     sweetness i = sweetness item \<and> additions i = additions item"
  by (simp add: sameLine_def JSON_stringify_inj)

subsection \<open>Adding to the cart\<close>

lemma findIndexFrom_range: "findIndexFrom P k xs = - 1 \<or> int k \<le> findIndexFrom P k xs"
  by (induction xs arbitrary: k) (auto, force)

lemma findIndexFrom_none: "findIndexFrom P k xs = - 1 \<longleftrightarrow> (\<forall>x\<in>set xs. \<not> P x)"
  by (induction xs arbitrary: k) auto

lemma mapIndexedFrom_same: "(\<And>x idx. k \<le> idx \<Longrightarrow> f x idx = x) \<Longrightarrow> mapIndexedFrom f k xs = xs"
  by (induction xs arbitrary: k) auto

lemma mapIndexedFrom_mergeFirst:
  "mapIndexedFrom (\<lambda>i idx. if int idx = findIndexFrom P k xs then g i else i) k xs = mergeFirst P g xs"
proof (induction xs arbitrary: k)
  case Nil
  show ?case by simp
next
  case (Cons x xs)
  show ?case
  proof (cases "P x")
    case True
    have "mapIndexedFrom (\<lambda>i idx. if int idx = int k then g i else i) (Suc k) xs = xs"
      by (rule mapIndexedFrom_same) simp
    with True show ?thesis by simp
  next
    case False
    have "int k \<noteq> findIndexFrom P (Suc k) xs"
      using findIndexFrom_range [of P "Suc k" xs] by auto
    with False Cons.IH [of "Suc k"] show ?thesis by simp
  qed
qed

lemma mergeFirst_none: "(\<forall>x\<in>set xs. \<not> P x) \<Longrightarrow> mergeFirst P g xs = xs"
  by (induction xs) auto

lemma items_handleAddToCart:
  "items (handleAddToCart cart item) =
     (if \<exists>i\<in>set (items cart). sameLine item i
      then mergeFirst (sameLine item) (\<lambda>i. i\<lparr>quantity := quantity i + quantity item\<rparr>) (items cart)
      else items cart @ [item])"
proof -
  have "findIndex (sameLine item) (items cart) > - 1 \<longleftrightarrow> (\<exists>i\<in>set (items cart). sameLine item i)"
    using findIndexFrom_none [of "sameLine item" 0 "items cart"]
      findIndexFrom_range [of "sameLine item" 0 "items cart"]
    by (auto simp: findIndex_def)
  then show ?thesis
    by (simp add: handleAddToCart_def Let_def mapIndexed_def findIndex_def mapIndexedFrom_mergeFirst)
qed

lemma sameLine_lineKey: "sameLine item i \<longleftrightarrow> lineKey i = lineKey item"
  by (simp add: sameLine_iff lineKey_def)

lemma map_key_mergeFirst: "(\<And>x. f (g x) = f x) \<Longrightarrow> map f (mergeFirst P g xs) = map f xs"
  by (induction xs) auto

lemma lineKey_quantity_update: "lineKey (i\<lparr>quantity := q\<rparr>) = lineKey i"
  by (simp add: lineKey_def)

lemma keys_handleAddToCart:
  "map lineKey (items (handleAddToCart cart item)) =
     (if lineKey item \<in> set (map lineKey (items cart)) then map lineKey (items cart)
      else map lineKey (items cart) @ [lineKey item])"
proof -
  have "(\<exists>i\<in>set (items cart). sameLine item i) \<longleftrightarrow> lineKey item \<in> set (map lineKey (items cart))"
    by (simp add: sameLine_lineKey image_iff) metis
  then show ?thesis
    by (simp add: items_handleAddToCart map_key_mergeFirst lineKey_quantity_update)
qed

lemma noMergeableLines_handleAddToCart:
  "noMergeableLines (items cart) \<Longrightarrow> noMergeableLines (items (handleAddToCart cart item))"
  by (simp add: noMergeableLines_def keys_handleAddToCart)









lemma foldl_plus: "foldl (\<lambda>sum a. sum + f a) z xs = z + sum_list (map f xs)" for z :: rat
  by (induction xs arbitrary: z) (auto simp: algebra_simps)

subsection \<open>The pricer\<close>

lemma sum_additionPrice:
  "(\<Sum>n\<in>set adds. additionPrice n) =
     sum_list (map snd (filter (\<lambda>a. fst a \<in> set adds) availableAdditions))"
proof -
  let ?K = "set (map fst availableAdditions)"
  have "(\<Sum>n\<in>set adds. additionPrice n) = (\<Sum>n\<in>set adds \<inter> ?K. additionPrice n)"
    by (rule sum.mono_neutral_right) (auto simp: additionPrice_def availableAdditions_def)
  also have "set adds \<inter> ?K = set (filter (\<lambda>n. n \<in> set adds) (map fst availableAdditions))"
    by auto
  also have "sum additionPrice \<dots> =
      sum_list (map additionPrice (filter (\<lambda>n. n \<in> set adds) (map fst availableAdditions)))"
    by (rule sum_list_distinct_conv_sum_set [symmetric]) (simp add: availableAdditions_def)
  also have "\<dots> = sum_list (map snd (filter (\<lambda>a. fst a \<in> set adds) availableAdditions))"
    by (simp add: availableAdditions_def additionPrice_def)
  finally show ?thesis .
qed

lemma calculateItemPrice_sum:
  "calculateItemPrice b s adds = b + (\<Sum>n\<in>set adds. additionPrice n) + sizeDelta s"
  unfolding sum_additionPrice
  by (simp add: calculateItemPrice_def Let_def foldl_plus sizeDelta_def)

lemma calculateItemPrice_cong:
  "(\<And>a. a \<in> set availableAdditions \<Longrightarrow> (fst a \<in> set xs) = (fst a \<in> set ys)) \<Longrightarrow>
   calculateItemPrice b s xs = calculateItemPrice b s ys"
proof -
  assume "\<And>a. a \<in> set availableAdditions \<Longrightarrow> (fst a \<in> set xs) = (fst a \<in> set ys)"
  then have "filter (\<lambda>a. fst a \<in> set xs) availableAdditions =
             filter (\<lambda>a. fst a \<in> set ys) availableAdditions"
    by (intro filter_cong refl)
  then show ?thesis by (simp add: calculateItemPrice_def)
qed

lemma distinct_handleToggleAddition:
  "distinct prev \<Longrightarrow> distinct (handleToggleAddition n prev)"
  by (simp add: handleToggleAddition_def)

lemma calculateItemPrice_sum_list:
  "distinct adds \<Longrightarrow>
   calculateItemPrice b s adds = b + sum_list (map additionPrice adds) + sizeDelta s"
  by (simp add: calculateItemPrice_sum sum_list_distinct_conv_sum_set)

text \<open>
  Claim C2. For every base price, selected size and selected additions, the unit price is
  the base price plus the sum of the selected additions' prices plus the size delta:
  -0.50 for Small, 0 for Medium, +1.50 for Large. Nothing clamps the result from below:
  a base price of 0.25 in size Small gives -0.25. For the catalogue item of base price
  5.99, size Large and no additions the unit price is 7.49, and a line of quantity 2
  contributes 14.98 to the total.
\<close>

theorem unit_price_rule:
  "calculateItemPrice b s adds = b + (\<Sum>n\<in>set adds. additionPrice n) + sizeDelta s \<and>
   sizeDelta ''Small'' = - (1 / 2) \<and> sizeDelta ''Medium'' = 0 \<and> sizeDelta ''Large'' = 3 / 2 \<and>
   calculateItemPrice (1 / 4) ''Small'' [] = - (1 / 4) \<and>
   price (handleSubmit_item uuid lemonade ''Large'' sw [] 2) = 749 / 100 \<and>
   newTotal [handleSubmit_item uuid lemonade ''Large'' sw [] 2] = 1498 / 100"
proof -
  have a: "calculateItemPrice (1 / 4) ''Small'' [] = - (1 / 4)"
    by (simp add: calculateItemPrice_def)
  have b: "calculateItemPrice (599 / 100) ''Large'' [] = 749 / 100"
    by (simp add: calculateItemPrice_def)
  have c: "price (handleSubmit_item uuid lemonade ''Large'' sw [] 2) = 749 / 100"
    by (simp add: handleSubmit_item_def lemonade_def b)
  have d: "newTotal [handleSubmit_item uuid lemonade ''Large'' sw [] 2] = 1498 / 100"
    by (simp add: newTotal_def handleSubmit_item_def lemonade_def b)
  have e: "sizeDelta ''Small'' = - (1 / 2) \<and> sizeDelta ''Medium'' = 0 \<and> sizeDelta ''Large'' = 3 / 2"
    by (simp add: sizeDelta_def)
  from calculateItemPrice_sum [of b s adds] a c d e show ?thesis by simp
qed

text \<open>
  Claim C10. Only the four names of the additions table (Protein Powder 1.50, Chia Seeds
  0.75, Ginger Shot 1.00, Spinach Boost 0.50) contribute to the unit price: for every list
  of strings the price is that of the list with the unknown names struck out, and adding
  an unknown name changes nothing. The pricer has no failing branch, so these equations
  hold for every list of strings.
\<close>

theorem unknown_addition_free:
  "calculateItemPrice b s adds = calculateItemPrice b s (filter knownAddition adds) \<and>
   (\<not> knownAddition n \<longrightarrow> calculateItemPrice b s (n # adds) = calculateItemPrice b s adds) \<and>
   (knownAddition n \<longleftrightarrow>
      n = ''Protein Powder'' \<or> n = ''Chia Seeds'' \<or> n = ''Ginger Shot'' \<or> n = ''Spinach Boost'') \<and>
   calculateItemPrice b s [''Protein Powder''] = calculateItemPrice b s [] + 3 / 2 \<and>
   calculateItemPrice b s [''Chia Seeds''] = calculateItemPrice b s [] + 3 / 4 \<and>
   calculateItemPrice b s [''Ginger Shot''] = calculateItemPrice b s [] + 1 \<and>
   calculateItemPrice b s [''Spinach Boost''] = calculateItemPrice b s [] + 1 / 2"
proof -
  have 1: "calculateItemPrice b s adds = calculateItemPrice b s (filter knownAddition adds)"
    by (rule calculateItemPrice_cong) (auto simp: knownAddition_def)
  have 2: "\<not> knownAddition n \<longrightarrow> calculateItemPrice b s (n # adds) = calculateItemPrice b s adds"
  proof
    assume "\<not> knownAddition n"
    then show "calculateItemPrice b s (n # adds) = calculateItemPrice b s adds"
      by (intro calculateItemPrice_cong) (auto simp: knownAddition_def)
  qed
  have 3: "knownAddition n \<longleftrightarrow>
      n = ''Protein Powder'' \<or> n = ''Chia Seeds'' \<or> n = ''Ginger Shot'' \<or> n = ''Spinach Boost''"
    by (auto simp: knownAddition_def availableAdditions_def)
  have 4: "calculateItemPrice b s [''Protein Powder''] = calculateItemPrice b s [] + 3 / 2"
    "calculateItemPrice b s [''Chia Seeds''] = calculateItemPrice b s [] + 3 / 4"
    "calculateItemPrice b s [''Ginger Shot''] = calculateItemPrice b s [] + 1"
    "calculateItemPrice b s [''Spinach Boost''] = calculateItemPrice b s [] + 1 / 2"
    by (simp_all add: calculateItemPrice_def availableAdditions_def Let_def)
  from 1 2 3 4 show ?thesis by blast
qed

theorem unknown_addition_free_witness:
  "calculateItemPrice (11 / 2) ''Large'' [''Oat Milk'', ''Chia Seeds''] = 31 / 4 \<and>
   calculateItemPrice (11 / 2) ''Large'' [''Chia Seeds''] = 31 / 4 \<and>
   \<not> knownAddition ''Oat Milk''"
proof -
  have k: "\<not> knownAddition ''Oat Milk''"
    by (simp add: knownAddition_def availableAdditions_def)
  have "calculateItemPrice (11 / 2) ''Large'' [''Chia Seeds''] = 31 / 4"
    by (simp add: calculateItemPrice_def availableAdditions_def)
  with k unknown_addition_free [of "11 / 2" "''Large''" "[''Chia Seeds'']" "''Oat Milk''"]
  show ?thesis by simp
qed

subsection \<open>Setting a quantity and removing a line\<close>

lemma filter_map_set_quantity:
  "q \<le> 0 \<Longrightarrow> list_all (\<lambda>i. 1 \<le> quantity i) its \<Longrightarrow>
   filter (\<lambda>item. quantity item > 0)
     (map (\<lambda>item. if item_id item = lineId then item\<lparr>quantity := q\<rparr> else item) its) =
   filter (\<lambda>item. item_id item \<noteq> lineId) its"
  by (induction its) auto

lemma filter_map_absent:
  "lineId \<notin> set (map item_id its) \<Longrightarrow> list_all (\<lambda>i. 1 \<le> quantity i) its \<Longrightarrow>
   filter (\<lambda>item. quantity item > 0)
     (map (\<lambda>item. if item_id item = lineId then item\<lparr>quantity := q\<rparr> else item) its) = its"
  by (induction its) auto

lemma filter_absent:
  "lineId \<notin> set (map item_id its) \<Longrightarrow> filter (\<lambda>item. item_id item \<noteq> lineId) its = its"
  by (induction its) auto

text \<open>
  Claim C6. For every cart (its lines have quantity at least 1, as the cart invariant says)
  and every line id, setting the quantity of the line to 0 gives the same cart as removing
  the line, and the two commands leave the application in the same state; setting any
  quantity at or below 0 removes the line; and when no line has the id, both leave the
  cart as it is.
\<close>

theorem setQuantity_zero_is_remove:
  assumes "list_all (\<lambda>i. 1 \<le> quantity i) (items cart)"
  shows "updateCartItemQuantity cart lineId 0 = removeItemFromCart cart lineId \<and>
         (q \<le> 0 \<longrightarrow> updateCartItemQuantity cart lineId q = removeItemFromCart cart lineId \<and>
                    lineId \<notin> set (map item_id (items (updateCartItemQuantity cart lineId q)))) \<and>
         (lineId \<notin> set (map item_id (items cart)) \<longrightarrow>
            updateCartItemQuantity cart lineId q = cart \<and> removeItemFromCart cart lineId = cart) \<and>
         (j_cart st = cart \<longrightarrow>
            updateCartItemQuantity_cmd ok now lineId 0 st = removeItemFromCart_cmd ok now lineId st)"
proof -
  have 1: "updateCartItemQuantity cart lineId 0 = removeItemFromCart cart lineId"
    using filter_map_set_quantity [OF _ assms, of 0 lineId]
    by (simp add: updateCartItemQuantity_def removeItemFromCart_def)
  have 2: "q \<le> 0 \<longrightarrow> updateCartItemQuantity cart lineId q = removeItemFromCart cart lineId \<and>
                    lineId \<notin> set (map item_id (items (updateCartItemQuantity cart lineId q)))"
  proof
    assume q: "q \<le> 0"
    have "updateCartItemQuantity cart lineId q = removeItemFromCart cart lineId"
      using filter_map_set_quantity [OF q assms, of lineId]
      by (simp add: updateCartItemQuantity_def removeItemFromCart_def)
    moreover have "lineId \<notin> set (map item_id (items (removeItemFromCart cart lineId)))"
      by (auto simp: removeItemFromCart_def)
    ultimately show "updateCartItemQuantity cart lineId q = removeItemFromCart cart lineId \<and>
                    lineId \<notin> set (map item_id (items (updateCartItemQuantity cart lineId q)))"
      by simp
  qed
  have 3: "lineId \<notin> set (map item_id (items cart)) \<longrightarrow>
            updateCartItemQuantity cart lineId q = cart \<and> removeItemFromCart cart lineId = cart"
  proof
    assume a: "lineId \<notin> set (map item_id (items cart))"
    show "updateCartItemQuantity cart lineId q = cart \<and> removeItemFromCart cart lineId = cart"
      using filter_map_absent [OF a assms, of q] filter_absent [OF a]
      by (simp add: updateCartItemQuantity_def removeItemFromCart_def)
  qed
  from 1 have 4: "j_cart st = cart \<longrightarrow>
            updateCartItemQuantity_cmd ok now lineId 0 st = removeItemFromCart_cmd ok now lineId st"
    by (simp add: updateCartItemQuantity_cmd_def removeItemFromCart_cmd_def)
  from 1 2 3 4 show ?thesis by blast
qed

theorem setQuantity_zero_is_remove_witness:
  "updateCartItemQuantity (cartOf [orangeLine ''a'' [] 2, orangeLine ''b'' [''Chia Seeds''] 1]) ''a'' 0
     = cartOf [orangeLine ''b'' [''Chia Seeds''] 1] \<and>
   removeItemFromCart (cartOf [orangeLine ''a'' [] 2, orangeLine ''b'' [''Chia Seeds''] 1]) ''a''
     = cartOf [orangeLine ''b'' [''Chia Seeds''] 1] \<and>
   updateCartItemQuantity (cartOf [orangeLine ''a'' [] 2, orangeLine ''b'' [''Chia Seeds''] 1]) ''a'' (- 3)
     = cartOf [orangeLine ''b'' [''Chia Seeds''] 1] \<and>
   updateCartItemQuantity (cartOf [orangeLine ''a'' [] 2, orangeLine ''b'' [''Chia Seeds''] 1]) ''z'' 7
     = cartOf [orangeLine ''a'' [] 2, orangeLine ''b'' [''Chia Seeds''] 1]"
proof -
  let ?c = "cartOf [orangeLine ''a'' [] 2, orangeLine ''b'' [''Chia Seeds''] 1]"
  have inv: "list_all (\<lambda>i. 1 \<le> quantity i) (items ?c)"
    by (simp add: cartOf_def orangeLine_def handleSubmit_item_def)
  have r: "removeItemFromCart ?c ''a'' = cartOf [orangeLine ''b'' [''Chia Seeds''] 1]"
    by (simp add: cartOf_def orangeLine_def handleSubmit_item_def removeItemFromCart_def)
  have z: "''z'' \<notin> set (map item_id (items ?c))"
    by (simp add: cartOf_def orangeLine_def handleSubmit_item_def)
  from setQuantity_zero_is_remove [OF inv, of "''a''" "- 3"]
       setQuantity_zero_is_remove [OF inv, of "''z''" 7] r z
  show ?thesis by simp
qed

subsection \<open>The merge predicate and the order of additions\<close>

lemma JSON_order:
  "JSON_stringify [''Chia Seeds'', ''Ginger Shot''] \<noteq> JSON_stringify [''Ginger Shot'', ''Chia Seeds'']"
  by (simp add: JSON_stringify_inj)

text \<open>
  Claim C7, as the code has it. The merge predicate compares the additions as a sequence:
  a line passes exactly when it has the item's juice, size, sweetness and the same addition
  names in the same order. So whether an add merges, and into which line, depends only on
  the juice, the size, the sweetness and the ordered list of addition names.
\<close>

theorem merge_compares_additions_in_order:
  "(sameLine item i \<longleftrightarrow>
      juiceId i = juiceId item \<and> item_size i = item_size item \<and>
      sweetness i = sweetness item \<and> additions i = additions item) \<and>
   (findIndex (sameLine item) (items cart) > - 1 \<longleftrightarrow>
      (\<exists>i\<in>set (items cart).
         juiceId i = juiceId item \<and> item_size i = item_size item \<and>
         sweetness i = sweetness item \<and> additions i = additions item)) \<and>
   (juiceId a = juiceId b \<and> item_size a = item_size b \<and> sweetness a = sweetness b \<and>
    additions a = additions b \<longrightarrow>
      findIndex (sameLine a) (items cart) = findIndex (sameLine b) (items cart))"
proof -
  have 1: "sameLine item i \<longleftrightarrow>
      juiceId i = juiceId item \<and> item_size i = item_size item \<and>
      sweetness i = sweetness item \<and> additions i = additions item" for item i
    by (rule sameLine_iff)
  have "findIndex (sameLine item) (items cart) > - 1 \<longleftrightarrow> (\<exists>i\<in>set (items cart). sameLine item i)"
    using findIndexFrom_none [of "sameLine item" 0 "items cart"]
      findIndexFrom_range [of "sameLine item" 0 "items cart"]
    by (auto simp: findIndex_def)
  then have 2: "findIndex (sameLine item) (items cart) > - 1 \<longleftrightarrow>
      (\<exists>i\<in>set (items cart).
         juiceId i = juiceId item \<and> item_size i = item_size item \<and>
         sweetness i = sweetness item \<and> additions i = additions item)"
    by (simp add: 1)
  have 3: "juiceId a = juiceId b \<and> item_size a = item_size b \<and> sweetness a = sweetness b \<and>
    additions a = additions b \<longrightarrow>
      findIndex (sameLine a) (items cart) = findIndex (sameLine b) (items cart)"
  proof
    assume "juiceId a = juiceId b \<and> item_size a = item_size b \<and> sweetness a = sweetness b \<and>
      additions a = additions b"
    then have "sameLine a = sameLine b"
      by (simp add: fun_eq_iff sameLine_def)
    then show "findIndex (sameLine a) (items cart) = findIndex (sameLine b) (items cart)"
      by simp
  qed
  from 1 2 3 show ?thesis by blast
qed

theorem merge_compares_additions_in_order_witness:
  "sameLine (orangeLine ''b'' [''Chia Seeds'', ''Ginger Shot''] 3)
            (orangeLine ''a'' [''Chia Seeds'', ''Ginger Shot''] 1) \<and>
   findIndex (sameLine (orangeLine ''b'' [''Chia Seeds'', ''Ginger Shot''] 3))
     (items (cartOf [orangeLine ''a'' [''Chia Seeds'', ''Ginger Shot''] 1])) > - 1 \<and>
   findIndex (sameLine (orangeLine ''b'' [''Chia Seeds'', ''Ginger Shot''] 3))
     (items (cartOf [orangeLine ''a'' [''Chia Seeds'', ''Ginger Shot''] 1])) =
   findIndex (sameLine (orangeLine ''c'' [''Chia Seeds'', ''Ginger Shot''] 1))
     (items (cartOf [orangeLine ''a'' [''Chia Seeds'', ''Ginger Shot''] 1]))"
  using merge_compares_additions_in_order
     [of "orangeLine ''b'' [''Chia Seeds'', ''Ginger Shot''] 3"
         "orangeLine ''a'' [''Chia Seeds'', ''Ginger Shot''] 1"
         "cartOf [orangeLine ''a'' [''Chia Seeds'', ''Ginger Shot''] 1]"
         "orangeLine ''b'' [''Chia Seeds'', ''Ginger Shot''] 3"
         "orangeLine ''c'' [''Chia Seeds'', ''Ginger Shot''] 1"]
  by (simp add: cartOf_def initialCartState_def orangeLine_def handleSubmit_item_def)

text \<open>
  Permuting the additions changes the outcome: against a line with Chia Seeds then Ginger
  Shot, an item listing them in that order merges, and one listing Ginger Shot first is
  appended as a second line.
\<close>

theorem additions_order_counterexample:
  "set [''Chia Seeds'', ''Ginger Shot''] = set [''Ginger Shot'', ''Chia Seeds''] \<and>
   items (handleAddToCart (cartOf [orangeLine ''a'' [''Chia Seeds'', ''Ginger Shot''] 1])
            (orangeLine ''b'' [''Chia Seeds'', ''Ginger Shot''] 1))
     = [orangeLine ''a'' [''Chia Seeds'', ''Ginger Shot''] 2] \<and>
   items (handleAddToCart (cartOf [orangeLine ''a'' [''Chia Seeds'', ''Ginger Shot''] 1])
            (orangeLine ''b'' [''Ginger Shot'', ''Chia Seeds''] 1))
     = [orangeLine ''a'' [''Chia Seeds'', ''Ginger Shot''] 1,
        orangeLine ''b'' [''Ginger Shot'', ''Chia Seeds''] 1]"
proof -
  have 1: "set [''Chia Seeds'', ''Ginger Shot''] = set [''Ginger Shot'', ''Chia Seeds'']"
    by auto
  have 2: "items (handleAddToCart (cartOf [orangeLine ''a'' [''Chia Seeds'', ''Ginger Shot''] 1])
            (orangeLine ''b'' [''Chia Seeds'', ''Ginger Shot''] 1))
     = [orangeLine ''a'' [''Chia Seeds'', ''Ginger Shot''] 2]"
    by (simp add: cartOf_def initialCartState_def orangeLine_def handleSubmit_item_def
         handleAddToCart_def findIndex_def mapIndexed_def sameLine_def Let_def)
  have 3: "items (handleAddToCart (cartOf [orangeLine ''a'' [''Chia Seeds'', ''Ginger Shot''] 1])
            (orangeLine ''b'' [''Ginger Shot'', ''Chia Seeds''] 1))
     = [orangeLine ''a'' [''Chia Seeds'', ''Ginger Shot''] 1,
        orangeLine ''b'' [''Ginger Shot'', ''Chia Seeds''] 1]"
    using JSON_order
    by (simp add: cartOf_def initialCartState_def orangeLine_def handleSubmit_item_def
         handleAddToCart_def findIndex_def mapIndexed_def sameLine_def Let_def)
  from 1 2 3 show ?thesis by blast
qed

section \<open>Properties of the cloud kitchen\<close>

subsection \<open>Totals\<close>

lemma subtotal_sum: "cartSubtotal cart = (\<Sum>item\<leftarrow>cart. k_price item * of_int (k_quantity item))"
  by (simp add: cartSubtotal_def foldl_plus)

text \<open>
  Claim C3. For every cart the derived totals satisfy: the subtotal is the sum over the
  lines of unit price times quantity; the tax is the subtotal times the rate 0.08; the
  delivery fee is 0 when the subtotal is 0 and 5.00 when the subtotal is greater than 0;
  the grand total is subtotal plus tax plus delivery fee. For a subtotal of 10.00 the tax
  is 0.80 and the grand total 15.80.
\<close>

theorem totals_rule:
  "cartSubtotal cart = (\<Sum>item\<leftarrow>cart. k_price item * of_int (k_quantity item)) \<and>
   taxAmount cart = cartSubtotal cart * (8 / 100) \<and>
   (cartSubtotal cart = 0 \<longrightarrow> deliveryFee cart = 0) \<and>
   (cartSubtotal cart > 0 \<longrightarrow> deliveryFee cart = 5) \<and>
   grandTotal cart = cartSubtotal cart + taxAmount cart + deliveryFee cart \<and>
   (cartSubtotal cart = 10 \<longrightarrow> taxAmount cart = 8 / 10 \<and> grandTotal cart = 158 / 10)"
  by (simp add: subtotal_sum taxAmount_def taxRate_def deliveryFee_def grandTotal_def)

theorem totals_rule_witness:
  "cartSubtotal [kitchenLine ''1'' 5 2] = 10 \<and> deliveryFee [kitchenLine ''1'' 5 2] = 5 \<and>
   taxAmount [kitchenLine ''1'' 5 2] = 8 / 10 \<and> grandTotal [kitchenLine ''1'' 5 2] = 158 / 10 \<and>
   cartSubtotal [] = 0 \<and> deliveryFee [] = 0"
proof -
  have a: "cartSubtotal [kitchenLine ''1'' 5 2] = 10"
    by (simp add: cartSubtotal_def kitchenLine_def)
  have b: "cartSubtotal [] = 0"
    by (simp add: cartSubtotal_def)
  from a b totals_rule [of "[kitchenLine ''1'' 5 2]"] totals_rule [of "[]"]
  show ?thesis by simp
qed

subsection \<open>Writing the cart with retries\<close>

lemma loop_done: "\<not> attempt < maxRetries \<Longrightarrow> updateCartInDb_loop e c attempt s = s"
  by (subst updateCartInDb_loop.simps) simp

lemma loop_ok:
  "attempt < maxRetries \<Longrightarrow> setDocOk e attempt \<Longrightarrow>
   updateCartInDb_loop e c attempt s =
     s\<lparr>remote_cart := Some \<lparr>itemsJson = Some (Encodes c), updatedAt = nowIso e\<rparr>,
       effects := effects s @ [SetDoc \<lparr>itemsJson = Some (Encodes c), updatedAt = nowIso e\<rparr> True]\<rparr>"
  by (subst updateCartInDb_loop.simps) (simp add: Let_def)

lemma loop_fail_step:
  "attempt < maxRetries - 1 \<Longrightarrow> \<not> setDocOk e attempt \<Longrightarrow>
   updateCartInDb_loop e c attempt s =
     updateCartInDb_loop e c (Suc attempt)
       (s\<lparr>effects := effects s @
          [SetDoc \<lparr>itemsJson = Some (Encodes c), updatedAt = nowIso e\<rparr> False,
           ConsoleWarn (Suc attempt), Sleep (1000 * 2 ^ attempt)]\<rparr>)"
  by (subst updateCartInDb_loop.simps) (simp add: Let_def)

lemma loop_fail_last:
  "attempt < maxRetries \<Longrightarrow> \<not> attempt < maxRetries - 1 \<Longrightarrow> \<not> setDocOk e attempt \<Longrightarrow>
   updateCartInDb_loop e c attempt s =
     s\<lparr>effects := effects s @
          [SetDoc \<lparr>itemsJson = Some (Encodes c), updatedAt = nowIso e\<rparr> False,
           ConsoleError ''Failed to save cart to Firestore after multiple retries:''],
       k_error := Some ''Failed to save cart. Please check your connection.''\<rparr>"
  by (subst updateCartInDb_loop.simps) (simp add: Let_def loop_done)

lemma loop_cart: "k_cart (updateCartInDb_loop e c a s) = k_cart s"
proof (induction e c a s rule: updateCartInDb_loop.induct)
  case (1 e newCart attempt s)
  show ?case
  proof (cases "attempt < maxRetries")
    case False
    then show ?thesis by (simp add: loop_done)
  next
    case lt: True
    show ?thesis
    proof (cases "setDocOk e attempt")
      case True
      with lt show ?thesis by (simp add: loop_ok)
    next
      case ok: False
      show ?thesis
      proof (cases "attempt < maxRetries - 1")
        case True
        from "1.IH"(1) [OF lt refl ok True] ok True show ?thesis
          by (simp add: loop_fail_step)
      next
        case False
        with lt ok show ?thesis by (simp add: loop_fail_last)
      qed
    qed
  qed
qed

lemma loop_all_fail:
  assumes "\<not> setDocOk e 0" "\<not> setDocOk e 1" "\<not> setDocOk e 2"
  shows "updateCartInDb_loop e c 0 s =
    s\<lparr>effects := effects s @
        [SetDoc \<lparr>itemsJson = Some (Encodes c), updatedAt = nowIso e\<rparr> False, ConsoleWarn 1, Sleep 1000,
         SetDoc \<lparr>itemsJson = Some (Encodes c), updatedAt = nowIso e\<rparr> False, ConsoleWarn 2, Sleep 2000,
         SetDoc \<lparr>itemsJson = Some (Encodes c), updatedAt = nowIso e\<rparr> False,
         ConsoleError ''Failed to save cart to Firestore after multiple retries:''],
       k_error := Some ''Failed to save cart. Please check your connection.''\<rparr>"
proof -
  have f: "\<not> setDocOk e 0" "\<not> setDocOk e (Suc 0)" "\<not> setDocOk e (Suc (Suc 0))"
    using assms by (simp_all add: numeral_2_eq_2)
  show ?thesis
    by (simp add: loop_fail_step [of 0] loop_fail_step [of "Suc 0"]
          loop_fail_last [of "Suc (Suc 0)"] f maxRetries_def numeral_2_eq_2)
qed

lemma loop_second_ok:
  assumes "\<not> setDocOk e 0" "setDocOk e 1"
  shows "updateCartInDb_loop e c 0 s =
    s\<lparr>remote_cart := Some \<lparr>itemsJson = Some (Encodes c), updatedAt = nowIso e\<rparr>,
       effects := effects s @
        [SetDoc \<lparr>itemsJson = Some (Encodes c), updatedAt = nowIso e\<rparr> False, ConsoleWarn 1, Sleep 1000,
         SetDoc \<lparr>itemsJson = Some (Encodes c), updatedAt = nowIso e\<rparr> True]\<rparr>"
  using assms
  by (simp add: loop_fail_step [of 0] loop_ok [of "Suc 0"] maxRetries_def)

lemma loop_third_ok:
  assumes "\<not> setDocOk e 0" "\<not> setDocOk e 1" "setDocOk e 2"
  shows "updateCartInDb_loop e c 0 s =
    s\<lparr>remote_cart := Some \<lparr>itemsJson = Some (Encodes c), updatedAt = nowIso e\<rparr>,
       effects := effects s @
        [SetDoc \<lparr>itemsJson = Some (Encodes c), updatedAt = nowIso e\<rparr> False, ConsoleWarn 1, Sleep 1000,
         SetDoc \<lparr>itemsJson = Some (Encodes c), updatedAt = nowIso e\<rparr> False, ConsoleWarn 2, Sleep 2000,
         SetDoc \<lparr>itemsJson = Some (Encodes c), updatedAt = nowIso e\<rparr> True]\<rparr>"
proof -
  have f: "\<not> setDocOk e 0" "\<not> setDocOk e (Suc 0)" "setDocOk e (Suc (Suc 0))"
    using assms by (simp_all add: numeral_2_eq_2)
  show ?thesis
    by (simp add: loop_fail_step [of 0] loop_fail_step [of "Suc 0"]
          loop_ok [of "Suc (Suc 0)"] f maxRetries_def numeral_2_eq_2)
qed

lemma updateCartInDb_cart: "k_cart (updateCartInDb e c s) = k_cart s"
  by (simp add: updateCartInDb_def loop_cart)


text \<open>
  Claim C5, at the code. A write of the cart never touches the in-memory cart, so the
  optimistic value a command has set stays whatever the write does. With a store handle
  and a user, the trace of a write is, in this order: an attempt; after a failed first
  attempt a warning, a wait of 1 s and a second attempt; after a failed second attempt a
  warning, a wait of 2 s and a third attempt; after a failed third attempt the error is
  logged and the error state set, with no further wait and no further attempt, and the
  stored document is as it was. The first successful attempt ends the write.
\<close>

theorem write_retry_policy:
  "k_cart (updateCartInDb e newCart s) = k_cart s \<and>
   k_cart (removeFromCart e itemId s) = filter (\<lambda>item. k_id item \<noteq> itemId) (k_cart s) \<and>
   (\<not> (k_db s \<and> truthy (k_userId s)) \<longrightarrow> updateCartInDb e newCart s = s) \<and>
   (k_db s \<and> truthy (k_userId s) \<and> setDocOk e 0 \<longrightarrow>
      updateCartInDb e newCart s =
        s\<lparr>remote_cart := Some \<lparr>itemsJson = Some (Encodes newCart), updatedAt = nowIso e\<rparr>,
          effects := effects s @
            [SetDoc \<lparr>itemsJson = Some (Encodes newCart), updatedAt = nowIso e\<rparr> True]\<rparr>) \<and>
   (k_db s \<and> truthy (k_userId s) \<and> \<not> setDocOk e 0 \<and> setDocOk e 1 \<longrightarrow>
      updateCartInDb e newCart s =
        s\<lparr>remote_cart := Some \<lparr>itemsJson = Some (Encodes newCart), updatedAt = nowIso e\<rparr>,
          effects := effects s @
            [SetDoc \<lparr>itemsJson = Some (Encodes newCart), updatedAt = nowIso e\<rparr> False,
             ConsoleWarn 1, Sleep 1000,
             SetDoc \<lparr>itemsJson = Some (Encodes newCart), updatedAt = nowIso e\<rparr> True]\<rparr>) \<and>
   (k_db s \<and> truthy (k_userId s) \<and> \<not> setDocOk e 0 \<and> \<not> setDocOk e 1 \<and> setDocOk e 2 \<longrightarrow>
      updateCartInDb e newCart s =
        s\<lparr>remote_cart := Some \<lparr>itemsJson = Some (Encodes newCart), updatedAt = nowIso e\<rparr>,
          effects := effects s @
            [SetDoc \<lparr>itemsJson = Some (Encodes newCart), updatedAt = nowIso e\<rparr> False,
             ConsoleWarn 1, Sleep 1000,
             SetDoc \<lparr>itemsJson = Some (Encodes newCart), updatedAt = nowIso e\<rparr> False,
             ConsoleWarn 2, Sleep 2000,
             SetDoc \<lparr>itemsJson = Some (Encodes newCart), updatedAt = nowIso e\<rparr> True]\<rparr>) \<and>
   (k_db s \<and> truthy (k_userId s) \<and> \<not> setDocOk e 0 \<and> \<not> setDocOk e 1 \<and> \<not> setDocOk e 2 \<longrightarrow>
      updateCartInDb e newCart s =
        s\<lparr>effects := effects s @
            [SetDoc \<lparr>itemsJson = Some (Encodes newCart), updatedAt = nowIso e\<rparr> False,
             ConsoleWarn 1, Sleep 1000,
             SetDoc \<lparr>itemsJson = Some (Encodes newCart), updatedAt = nowIso e\<rparr> False,
             ConsoleWarn 2, Sleep 2000,
             SetDoc \<lparr>itemsJson = Some (Encodes newCart), updatedAt = nowIso e\<rparr> False,
             ConsoleError ''Failed to save cart to Firestore after multiple retries:''],
          k_error := Some ''Failed to save cart. Please check your connection.''\<rparr>)"
proof -
  have 1: "k_cart (updateCartInDb e newCart s) = k_cart s"
    by (rule updateCartInDb_cart)
  have 2: "k_cart (removeFromCart e itemId s) = filter (\<lambda>item. k_id item \<noteq> itemId) (k_cart s)"
    by (simp add: removeFromCart_def Let_def updateCartInDb_cart)
  have 3: "\<not> (k_db s \<and> truthy (k_userId s)) \<longrightarrow> updateCartInDb e newCart s = s"
    by (simp add: updateCartInDb_def)
  have 4: "k_db s \<and> truthy (k_userId s) \<and> setDocOk e 0 \<longrightarrow>
      updateCartInDb e newCart s =
        s\<lparr>remote_cart := Some \<lparr>itemsJson = Some (Encodes newCart), updatedAt = nowIso e\<rparr>,
          effects := effects s @
            [SetDoc \<lparr>itemsJson = Some (Encodes newCart), updatedAt = nowIso e\<rparr> True]\<rparr>"
    by (simp add: updateCartInDb_def loop_ok maxRetries_def)
  have 5: "k_db s \<and> truthy (k_userId s) \<and> \<not> setDocOk e 0 \<and> setDocOk e 1 \<longrightarrow>
      updateCartInDb e newCart s =
        s\<lparr>remote_cart := Some \<lparr>itemsJson = Some (Encodes newCart), updatedAt = nowIso e\<rparr>,
          effects := effects s @
            [SetDoc \<lparr>itemsJson = Some (Encodes newCart), updatedAt = nowIso e\<rparr> False,
             ConsoleWarn 1, Sleep 1000,
             SetDoc \<lparr>itemsJson = Some (Encodes newCart), updatedAt = nowIso e\<rparr> True]\<rparr>"
    by (simp add: updateCartInDb_def loop_second_ok)
  have 6: "k_db s \<and> truthy (k_userId s) \<and> \<not> setDocOk e 0 \<and> \<not> setDocOk e 1 \<and> setDocOk e 2 \<longrightarrow>
      updateCartInDb e newCart s =
        s\<lparr>remote_cart := Some \<lparr>itemsJson = Some (Encodes newCart), updatedAt = nowIso e\<rparr>,
          effects := effects s @
            [SetDoc \<lparr>itemsJson = Some (Encodes newCart), updatedAt = nowIso e\<rparr> False,
             ConsoleWarn 1, Sleep 1000,
             SetDoc \<lparr>itemsJson = Some (Encodes newCart), updatedAt = nowIso e\<rparr> False,
             ConsoleWarn 2, Sleep 2000,
             SetDoc \<lparr>itemsJson = Some (Encodes newCart), updatedAt = nowIso e\<rparr> True]\<rparr>"
    by (simp add: updateCartInDb_def loop_third_ok)
  have 7: "k_db s \<and> truthy (k_userId s) \<and> \<not> setDocOk e 0 \<and> \<not> setDocOk e 1 \<and> \<not> setDocOk e 2 \<longrightarrow>
      updateCartInDb e newCart s =
        s\<lparr>effects := effects s @
            [SetDoc \<lparr>itemsJson = Some (Encodes newCart), updatedAt = nowIso e\<rparr> False,
             ConsoleWarn 1, Sleep 1000,
             SetDoc \<lparr>itemsJson = Some (Encodes newCart), updatedAt = nowIso e\<rparr> False,
             ConsoleWarn 2, Sleep 2000,
             SetDoc \<lparr>itemsJson = Some (Encodes newCart), updatedAt = nowIso e\<rparr> False,
             ConsoleError ''Failed to save cart to Firestore after multiple retries:''],
          k_error := Some ''Failed to save cart. Please check your connection.''\<rparr>"
    by (simp add: updateCartInDb_def loop_all_fail)
  from 1 2 3 4 5 6 7 show ?thesis by (intro conjI)
qed

text \<open>
  With every write failing, the trace holds three attempts with waits of 1 s and 2 s
  between them and nothing after the third but the error: no wait of 4 s occurs.
\<close>

theorem write_retry_policy_witness:
  "effects (updateCartInDb offlineEnv [kitchenLine ''1'' 5 2] (sessionWith [kitchenLine ''1'' 5 2])) =
     [SetDoc \<lparr>itemsJson = Some (Encodes [kitchenLine ''1'' 5 2]), updatedAt = nowIso offlineEnv\<rparr> False,
      ConsoleWarn 1, Sleep 1000,
      SetDoc \<lparr>itemsJson = Some (Encodes [kitchenLine ''1'' 5 2]), updatedAt = nowIso offlineEnv\<rparr> False,
      ConsoleWarn 2, Sleep 2000,
      SetDoc \<lparr>itemsJson = Some (Encodes [kitchenLine ''1'' 5 2]), updatedAt = nowIso offlineEnv\<rparr> False,
      ConsoleError ''Failed to save cart to Firestore after multiple retries:''] \<and>
   Sleep 4000 \<notin> set (effects (updateCartInDb offlineEnv [kitchenLine ''1'' 5 2]
                                  (sessionWith [kitchenLine ''1'' 5 2]))) \<and>
   k_error (updateCartInDb offlineEnv [kitchenLine ''1'' 5 2] (sessionWith [kitchenLine ''1'' 5 2]))
     = Some ''Failed to save cart. Please check your connection.'' \<and>
   k_cart (updateCartInDb offlineEnv [kitchenLine ''1'' 5 2] (sessionWith [kitchenLine ''1'' 5 2]))
     = [kitchenLine ''1'' 5 2] \<and>
   remote_cart (updateCartInDb offlineEnv [kitchenLine ''1'' 5 2] (sessionWith [kitchenLine ''1'' 5 2]))
     = None \<and>
   effects (updateCartInDb onlineEnv [] (sessionWith [])) =
     [SetDoc \<lparr>itemsJson = Some (Encodes []), updatedAt = nowIso onlineEnv\<rparr> True]"
proof -
  have c: "k_db (sessionWith c) \<and> truthy (k_userId (sessionWith c)) \<and> effects (sessionWith c) = [] \<and>
           remote_cart (sessionWith c) = None \<and> k_cart (sessionWith c) = c" for c
    by (simp add: sessionWith_def truthy_def)
  have off: "\<not> setDocOk offlineEnv n" for n
    by (simp add: offlineEnv_def)
  have on: "setDocOk onlineEnv n" for n
    by (simp add: onlineEnv_def)
  from write_retry_policy [of offlineEnv "[kitchenLine ''1'' 5 2]" "sessionWith [kitchenLine ''1'' 5 2]"]
  have a: "updateCartInDb offlineEnv [kitchenLine ''1'' 5 2] (sessionWith [kitchenLine ''1'' 5 2]) =
     (sessionWith [kitchenLine ''1'' 5 2])\<lparr>effects := effects (sessionWith [kitchenLine ''1'' 5 2]) @
        [SetDoc \<lparr>itemsJson = Some (Encodes [kitchenLine ''1'' 5 2]), updatedAt = nowIso offlineEnv\<rparr> False,
         ConsoleWarn 1, Sleep 1000,
         SetDoc \<lparr>itemsJson = Some (Encodes [kitchenLine ''1'' 5 2]), updatedAt = nowIso offlineEnv\<rparr> False,
         ConsoleWarn 2, Sleep 2000,
         SetDoc \<lparr>itemsJson = Some (Encodes [kitchenLine ''1'' 5 2]), updatedAt = nowIso offlineEnv\<rparr> False,
         ConsoleError ''Failed to save cart to Firestore after multiple retries:''],
       k_error := Some ''Failed to save cart. Please check your connection.''\<rparr>"
    using c [of "[kitchenLine ''1'' 5 2]"] off by blast
  from write_retry_policy [of onlineEnv "[]" "sessionWith []"]
  have b: "updateCartInDb onlineEnv [] (sessionWith []) =
     (sessionWith [])\<lparr>remote_cart := Some \<lparr>itemsJson = Some (Encodes []), updatedAt = nowIso onlineEnv\<rparr>,
        effects := effects (sessionWith []) @
          [SetDoc \<lparr>itemsJson = Some (Encodes []), updatedAt = nowIso onlineEnv\<rparr> True]\<rparr>"
    using c [of "[]"] on by blast
  show ?thesis
    unfolding a b by (simp add: c)
qed

subsection \<open>Checkout\<close>

lemma subtotal_nonneg:
  "\<forall>i\<in>set cart. 0 \<le> k_price i \<and> 1 \<le> k_quantity i \<Longrightarrow> 0 \<le> cartSubtotal cart"
  unfolding subtotal_sum by (rule sum_list_nonneg) auto

lemma grandTotal_nonpos:
  assumes "\<forall>i\<in>set cart. 0 \<le> k_price i \<and> 1 \<le> k_quantity i" "grandTotal cart \<le> 0"
  shows "grandTotal cart = 0"
proof -
  have "0 \<le> cartSubtotal cart" using assms(1) by (rule subtotal_nonneg)
  with assms(2) show ?thesis
    by (cases "cartSubtotal cart = 0")
       (auto simp: grandTotal_def taxAmount_def taxRate_def deliveryFee_def split: if_splits)
qed

lemma handlePlaceOrder_places:
  assumes "k_cart s \<noteq> []" "grandTotal (k_cart s) \<noteq> 0" "k_db s" "truthy (k_userId s)" "addDocOk e"
  shows "length (remote_history (handlePlaceOrder e s)) = Suc (length (remote_history s)) \<and>
         status (last (remote_history (handlePlaceOrder e s))) = ''Preparing'' \<and>
         k_isOrderPlaced (handlePlaceOrder e s)"
proof -
  have h: "remote_history (updateCartInDb_loop e c a t) = remote_history t" for c a t
  proof (induction e c a t rule: updateCartInDb_loop.induct)
    case (1 e newCart attempt t)
    show ?case
    proof (cases "attempt < maxRetries")
      case False
      then show ?thesis by (simp add: loop_done)
    next
      case lt: True
      show ?thesis
      proof (cases "setDocOk e attempt")
        case True
        with lt show ?thesis by (simp add: loop_ok)
      next
        case ok: False
        show ?thesis
        proof (cases "attempt < maxRetries - 1")
          case True
          from "1.IH"(1) [OF lt refl ok True] ok True show ?thesis
            by (simp add: loop_fail_step)
        next
          case False
          with lt ok show ?thesis by (simp add: loop_fail_last)
        qed
      qed
    qed
  qed
  have "remote_history (updateCartInDb e c t) = remote_history t" for c t
    by (simp add: updateCartInDb_def h)
  with assms show ?thesis
    by (simp add: handlePlaceOrder_def Let_def)
qed

text \<open>
  Claim C4, as the code has it. Checkout on a cart that is empty or whose grand total is
  0 returns at its guard and changes nothing: no order is created, the cart, the order
  history and the error state stay as they were, and nothing is reported. On a cart with
  prices of at least 0 and quantities of at least 1, a grand total at or below 0 is the
  same case.
\<close>

theorem checkout_guard_returns_silently:
  "(k_cart s = [] \<or> grandTotal (k_cart s) = 0 \<longrightarrow> handlePlaceOrder e s = s) \<and>
   ((\<forall>i\<in>set (k_cart s). 0 \<le> k_price i \<and> 1 \<le> k_quantity i) \<and> grandTotal (k_cart s) \<le> 0 \<longrightarrow>
      handlePlaceOrder e s = s)"
proof -
  have 1: "k_cart s = [] \<or> grandTotal (k_cart s) = 0 \<longrightarrow> handlePlaceOrder e s = s"
    by (auto simp: handlePlaceOrder_def)
  have 2: "(\<forall>i\<in>set (k_cart s). 0 \<le> k_price i \<and> 1 \<le> k_quantity i) \<and> grandTotal (k_cart s) \<le> 0 \<longrightarrow>
      handlePlaceOrder e s = s"
  proof
    assume a: "(\<forall>i\<in>set (k_cart s). 0 \<le> k_price i \<and> 1 \<le> k_quantity i) \<and> grandTotal (k_cart s) \<le> 0"
    then have "grandTotal (k_cart s) = 0" using grandTotal_nonpos by blast
    with 1 show "handlePlaceOrder e s = s" by simp
  qed
  from 1 2 show ?thesis by (rule conjI)
qed

theorem checkout_guard_returns_silently_witness:
  "handlePlaceOrder onlineEnv (sessionWith []) = sessionWith [] \<and>
   grandTotal [kitchenLine ''1'' 0 1] = 0 \<and>
   handlePlaceOrder onlineEnv (sessionWith [kitchenLine ''1'' 0 1]) = sessionWith [kitchenLine ''1'' 0 1]"
proof -
  have g: "grandTotal [kitchenLine ''1'' 0 1] = 0"
    by (simp add: grandTotal_def taxAmount_def deliveryFee_def cartSubtotal_def kitchenLine_def)
  have c: "k_cart (sessionWith c) = c" for c
    by (simp add: sessionWith_def)
  have p: "\<forall>i\<in>set (k_cart (sessionWith [kitchenLine ''1'' 0 1])). 0 \<le> k_price i \<and> 1 \<le> k_quantity i"
    by (simp add: c kitchenLine_def)
  from checkout_guard_returns_silently [of "sessionWith []" onlineEnv]
       checkout_guard_returns_silently [of "sessionWith [kitchenLine ''1'' 0 1]" onlineEnv] g p
  show ?thesis by (simp add: c)
qed

text \<open>
  Checkout on the empty cart reports no error: the error state stays unset and nothing is
  logged. And the guard tests the grand total for equality with 0: a cart with a negative
  price has a grand total below 0 and its order is placed.
\<close>

theorem empty_checkout_counterexample:
  "k_cart (sessionWith []) = [] \<and>
   k_error (handlePlaceOrder onlineEnv (sessionWith [])) = None \<and>
   effects (handlePlaceOrder onlineEnv (sessionWith [])) = [] \<and>
   handlePlaceOrder onlineEnv (sessionWith []) = sessionWith [] \<and>
   grandTotal (k_cart (sessionWith [kitchenLine ''1'' (- 10) 1])) < 0 \<and>
   length (remote_history (handlePlaceOrder onlineEnv (sessionWith [kitchenLine ''1'' (- 10) 1]))) = 1"
proof -
  have g: "grandTotal [kitchenLine ''1'' (- 10) 1] = - (54 / 5)"
    by (simp add: grandTotal_def taxAmount_def taxRate_def deliveryFee_def cartSubtotal_def
          kitchenLine_def)
  have c: "k_cart (sessionWith c) = c \<and> k_db (sessionWith c) \<and> truthy (k_userId (sessionWith c)) \<and>
           remote_history (sessionWith c) = []" for c
    by (simp add: sessionWith_def truthy_def)
  have "length (remote_history (handlePlaceOrder onlineEnv (sessionWith [kitchenLine ''1'' (- 10) 1]))) =
        Suc (length (remote_history (sessionWith [kitchenLine ''1'' (- 10) 1])))"
    using handlePlaceOrder_places [of "sessionWith [kitchenLine ''1'' (- 10) 1]" onlineEnv]
    by (simp add: c g onlineEnv_def)
  then have p: "length (remote_history (handlePlaceOrder onlineEnv
                  (sessionWith [kitchenLine ''1'' (- 10) 1]))) = 1"
    by (simp add: c)
  have e: "handlePlaceOrder onlineEnv (sessionWith []) = sessionWith []"
    by (simp add: handlePlaceOrder_def c)
  show ?thesis
    unfolding e using p by (simp add: c g) (simp add: sessionWith_def)
qed

subsection \<open>An absent cart document\<close>

text \<open>
  Claim C9, as the code has it. On an absent snapshot both listeners install an empty
  cart and neither reports an error. The customizer's listener also issues a write of
  the fresh cart; the cloud kitchen's listener issues no write and leaves the store alone.
\<close>

theorem absent_snapshot_bootstrap:
  "k_cart (kitchen_onSnapshot Absent s) = [] \<and>
   k_error (kitchen_onSnapshot Absent s) = k_error s \<and>
   effects (kitchen_onSnapshot Absent s) = effects s \<and>
   remote_cart (kitchen_onSnapshot Absent s) = remote_cart s \<and>
   j_cart (juice_onSnapshot lands now Absent t) = initialCartState\<lparr>lastUpdated := Some now\<rparr> \<and>
   items (j_cart (juice_onSnapshot lands now Absent t)) = [] \<and>
   j_issued (juice_onSnapshot lands now Absent t) =
     j_issued t @ [(j_userId t, initialCartState\<lparr>lastUpdated := Some now\<rparr>)] \<and>
   j_doc (juice_onSnapshot True now Absent t) =
     Some (j_userId t, initialCartState\<lparr>lastUpdated := Some now\<rparr>) \<and>
   j_message (juice_onSnapshot lands now Absent t) = j_message t"
  by (simp add: kitchen_onSnapshot_def juice_onSnapshot_def Let_def initialCartState_def)

text \<open>The cloud kitchen's listener writes nothing on an absent snapshot.\<close>

theorem absent_snapshot_counterexample:
  "effects (kitchen_onSnapshot Absent (sessionWith [kitchenLine ''1'' 5 2])) = [] \<and>
   remote_cart (kitchen_onSnapshot Absent (sessionWith [kitchenLine ''1'' 5 2])) = None \<and>
   k_cart (kitchen_onSnapshot Absent (sessionWith [kitchenLine ''1'' 5 2])) = []"
  by (simp add: kitchen_onSnapshot_def sessionWith_def)

subsection \<open>The cart invariant\<close>

lemma list_all_mergeFirst:
  "list_all Q xs \<Longrightarrow> (\<And>x. Q x \<Longrightarrow> Q (g x)) \<Longrightarrow> list_all Q (mergeFirst P g xs)"
  by (induction xs) auto

lemma distinct_filter_map_key:
  "(\<And>x. f (g x) = f x) \<Longrightarrow> distinct (map f xs) \<Longrightarrow> distinct (map f (filter P (map g xs)))"
proof -
  assume k: "\<And>x. f (g x) = f x" and d: "distinct (map f xs)"
  have "map f (map g xs) = map f xs" by (induction xs) (simp_all add: k)
  with d have "distinct (map f (map g xs))" by (simp only:)
  then show ?thesis by (rule distinct_map_filter)
qed

lemma mergeInvariant_handleAddToCart:
  assumes "mergeInvariant (items cart)" "1 \<le> quantity item"
  shows "mergeInvariant (items (handleAddToCart cart item))"
proof -
  have d: "noMergeableLines (items (handleAddToCart cart item))"
    using assms(1) by (simp add: mergeInvariant_def noMergeableLines_handleAddToCart)
  have q: "list_all (\<lambda>i. 1 \<le> quantity i) (items cart)"
    using assms(1) by (simp add: mergeInvariant_def)
  have "list_all (\<lambda>i. 1 \<le> quantity i)
          (mergeFirst (sameLine item) (\<lambda>i. i\<lparr>quantity := quantity i + quantity item\<rparr>) (items cart))"
    using q by (rule list_all_mergeFirst) (use assms(2) in simp)
  with q assms(2) have "list_all (\<lambda>i. 1 \<le> quantity i) (items (handleAddToCart cart item))"
    by (simp add: items_handleAddToCart)
  with d show ?thesis by (simp add: mergeInvariant_def)
qed

lemma mergeInvariant_updateCartItemQuantity:
  assumes "mergeInvariant (items cart)"
  shows "mergeInvariant (items (updateCartItemQuantity cart lineId q))"
proof -
  let ?g = "\<lambda>item. if item_id item = lineId then item\<lparr>quantity := q\<rparr> else item"
  have "distinct (map lineKey (filter (\<lambda>item. quantity item > 0) (map ?g (items cart))))"
    using assms
    by (intro distinct_filter_map_key) (simp_all add: mergeInvariant_def noMergeableLines_def lineKey_def)
  moreover have "list_all (\<lambda>i. 1 \<le> quantity i) (filter (\<lambda>item. quantity item > 0) (map ?g (items cart)))"
    by (auto simp: list_all_iff)
  ultimately show ?thesis
    by (simp add: mergeInvariant_def noMergeableLines_def updateCartItemQuantity_def)
qed

lemma mergeInvariant_removeItemFromCart:
  assumes "mergeInvariant (items cart)"
  shows "mergeInvariant (items (removeItemFromCart cart lineId))"
  using assms
  by (auto simp: mergeInvariant_def noMergeableLines_def removeItemFromCart_def
        distinct_map_filter list_all_iff)

lemma formQuantity_pos: "1 \<le> formQuantity clicks"
  by (induction clicks) (auto simp: Let_def)

lemma kcart_addToCart:
  "k_cart (addToCart e item s) =
     (if \<exists>c\<in>set (k_cart s). k_id c = k_id item
      then mergeFirst (\<lambda>c. k_id c = k_id item) (\<lambda>c. c\<lparr>k_quantity := k_quantity c + 1\<rparr>) (k_cart s)
      else k_cart s @ [\<lparr>k_id = k_id item, k_name = k_name item, k_price = k_price item,
                            k_icon = k_icon item, k_category = k_category item,
                            k_quantity = 1\<rparr>])"
proof -
  have "findIndex (\<lambda>c. k_id c = k_id item) (k_cart s) > - 1 \<longleftrightarrow> (\<exists>c\<in>set (k_cart s). k_id c = k_id item)"
    using findIndexFrom_none [of "\<lambda>c. k_id c = k_id item" 0 "k_cart s"]
      findIndexFrom_range [of "\<lambda>c. k_id c = k_id item" 0 "k_cart s"]
    by (auto simp: findIndex_def)
  then show ?thesis
    by (simp add: addToCart_def Let_def updateCartInDb_cart mapIndexed_def findIndex_def
          mapIndexedFrom_mergeFirst)
qed

lemma kitchenInvariant_addToCart:
  assumes "kitchenInvariant (k_cart s)"
  shows "kitchenInvariant (k_cart (addToCart e item s))"
proof (cases "\<exists>c\<in>set (k_cart s). k_id c = k_id item")
  case True
  have "map k_id (mergeFirst (\<lambda>c. k_id c = k_id item) (\<lambda>c. c\<lparr>k_quantity := k_quantity c + 1\<rparr>) (k_cart s))
        = map k_id (k_cart s)"
    by (rule map_key_mergeFirst) simp
  moreover have "list_all (\<lambda>i. 1 \<le> k_quantity i)
       (mergeFirst (\<lambda>c. k_id c = k_id item) (\<lambda>c. c\<lparr>k_quantity := k_quantity c + 1\<rparr>) (k_cart s))"
    using assms by (intro list_all_mergeFirst) (simp_all add: kitchenInvariant_def)
  ultimately show ?thesis using assms True
    by (simp add: kcart_addToCart kitchenInvariant_def)
next
  case False
  then have "k_id item \<notin> set (map k_id (k_cart s))" by auto
  with assms False show ?thesis
    by (simp add: kcart_addToCart kitchenInvariant_def)
qed

lemma kitchenInvariant_updateQuantity:
  assumes "kitchenInvariant (k_cart s)"
  shows "kitchenInvariant (k_cart (updateQuantity e itemId change s))"
proof -
  let ?g = "\<lambda>item. if k_id item = itemId then item\<lparr>k_quantity := k_quantity item + change\<rparr> else item"
  have "distinct (map k_id (filter (\<lambda>item. k_quantity item > 0) (map ?g (k_cart s))))"
    using assms
    by (intro distinct_filter_map_key) (simp_all add: kitchenInvariant_def)
  moreover have "list_all (\<lambda>i. 1 \<le> k_quantity i) (filter (\<lambda>item. k_quantity item > 0) (map ?g (k_cart s)))"
    by (auto simp: list_all_iff)
  ultimately show ?thesis
    by (simp add: kitchenInvariant_def updateQuantity_def Let_def updateCartInDb_cart)
qed

lemma kitchenInvariant_removeFromCart:
  assumes "kitchenInvariant (k_cart s)"
  shows "kitchenInvariant (k_cart (removeFromCart e itemId s))"
  using assms
  by (auto simp: kitchenInvariant_def removeFromCart_def Let_def updateCartInDb_cart
        distinct_map_filter list_all_iff)

lemma cartInvariant_mergeInvariant: "cartInvariant its \<Longrightarrow> mergeInvariant its"
proof -
  assume c: "cartInvariant its"
  let ?h = "\<lambda>k :: string \<times> string \<times> string \<times> string list.
              (fst k, fst (snd k), fst (snd (snd k)), set (snd (snd (snd k))))"
  have "map specKey its = map ?h (map lineKey its)"
    by (simp add: specKey_def lineKey_def)
  with c have "distinct (map ?h (map lineKey its))"
    by (simp add: cartInvariant_def)
  then have "distinct (map lineKey its)"
    by (simp only: distinct_map)
  with c show ?thesis
    by (simp add: cartInvariant_def mergeInvariant_def noMergeableLines_def)
qed

lemma cartInvariant_updateCartItemQuantity:
  assumes "cartInvariant (items cart)"
  shows "cartInvariant (items (updateCartItemQuantity cart lineId q))"
proof -
  let ?g = "\<lambda>item. if item_id item = lineId then item\<lparr>quantity := q\<rparr> else item"
  have "distinct (map specKey (filter (\<lambda>item. quantity item > 0) (map ?g (items cart))))"
    using assms
    by (intro distinct_filter_map_key) (simp_all add: cartInvariant_def specKey_def)
  moreover have "list_all (\<lambda>i. 1 \<le> quantity i) (filter (\<lambda>item. quantity item > 0) (map ?g (items cart)))"
    by (auto simp: list_all_iff)
  ultimately show ?thesis
    by (simp add: cartInvariant_def updateCartItemQuantity_def)
qed

lemma cartInvariant_removeItemFromCart:
  assumes "cartInvariant (items cart)"
  shows "cartInvariant (items (removeItemFromCart cart lineId))"
  using assms
  by (auto simp: cartInvariant_def removeItemFromCart_def distinct_map_filter list_all_iff)

text \<open>
  Claim C8, as the code has it. Setting a quantity, removing a line and clearing keep the
  cart invariant (no two lines equivalent, with the additions compared as a set, and
  every quantity at least 1); a line whose quantity would fall to zero or below is
  dropped, never kept; the initial cart satisfies the invariant. Add keeps every quantity
  at least 1, for an added quantity of at least 1 and so for every item the form submits,
  and it keeps the cart free of two lines with the same juice, size, sweetness and the
  same additions in the same order, which every cart satisfying the invariant is. In the
  cloud kitchen, where lines are equivalent when their ids agree, add, changing a
  quantity by a delta, removing a line and clearing keep the invariant.
\<close>

theorem cart_operations_preserve_invariant:
  "(cartInvariant (items cart) \<longrightarrow>
      cartInvariant (items (updateCartItemQuantity cart lineId q)) \<and>
      cartInvariant (items (removeItemFromCart cart lineId)) \<and>
      mergeInvariant (items cart)) \<and>
   cartInvariant (items initialCartState) \<and>
   (mergeInvariant (items cart) \<and> 1 \<le> quantity item \<longrightarrow>
      mergeInvariant (items (handleAddToCart cart item))) \<and>
   (mergeInvariant (items cart) \<longrightarrow>
      mergeInvariant (items (handleAddToCart cart
         (handleSubmit_item uuid j sz sw adds (formQuantity clicks)))) \<and>
      mergeInvariant (items (updateCartItemQuantity cart lineId q)) \<and>
      mergeInvariant (items (removeItemFromCart cart lineId))) \<and>
   (kitchenInvariant (k_cart s) \<longrightarrow>
      kitchenInvariant (k_cart (addToCart e m s)) \<and>
      kitchenInvariant (k_cart (updateQuantity e itemId change s)) \<and>
      kitchenInvariant (k_cart (removeFromCart e itemId s))) \<and>
   kitchenInvariant (k_cart (clearCart e s))"
proof -
  have 0: "cartInvariant (items cart) \<longrightarrow>
      cartInvariant (items (updateCartItemQuantity cart lineId q)) \<and>
      cartInvariant (items (removeItemFromCart cart lineId)) \<and>
      mergeInvariant (items cart)"
    using cartInvariant_updateCartItemQuantity cartInvariant_removeItemFromCart
      cartInvariant_mergeInvariant by blast
  have 1: "mergeInvariant (items cart) \<and> 1 \<le> quantity item \<longrightarrow>
      mergeInvariant (items (handleAddToCart cart item))" for item
    using mergeInvariant_handleAddToCart by blast
  have "1 \<le> quantity (handleSubmit_item uuid j sz sw adds (formQuantity clicks))"
    by (simp add: handleSubmit_item_def formQuantity_pos)
  with 1 have 2: "mergeInvariant (items cart) \<longrightarrow>
      mergeInvariant (items (handleAddToCart cart
         (handleSubmit_item uuid j sz sw adds (formQuantity clicks))))"
    by blast
  have 3: "mergeInvariant (items cart) \<longrightarrow>
      mergeInvariant (items (updateCartItemQuantity cart lineId q)) \<and>
      mergeInvariant (items (removeItemFromCart cart lineId))"
    using mergeInvariant_updateCartItemQuantity mergeInvariant_removeItemFromCart by blast
  have 4: "cartInvariant (items initialCartState)"
    by (simp add: cartInvariant_def initialCartState_def)
  have 5: "kitchenInvariant (k_cart s) \<longrightarrow>
      kitchenInvariant (k_cart (addToCart e m s)) \<and>
      kitchenInvariant (k_cart (updateQuantity e itemId change s)) \<and>
      kitchenInvariant (k_cart (removeFromCart e itemId s))"
    using kitchenInvariant_addToCart kitchenInvariant_updateQuantity
      kitchenInvariant_removeFromCart by blast
  have 6: "kitchenInvariant (k_cart (clearCart e s))"
    by (simp add: clearCart_def updateCartInDb_cart kitchenInvariant_def)
  from 0 4 1 [of item] 2 3 5 6 show ?thesis by blast
qed

theorem cart_operations_preserve_invariant_witness:
  "cartInvariant (items (cartOf [orangeLine ''a'' [] 2])) \<and>
   mergeInvariant (items (cartOf [orangeLine ''a'' [] 2])) \<and>
   mergeInvariant (items (handleAddToCart (cartOf [orangeLine ''a'' [] 2]) (orangeLine ''b'' [] 3))) \<and>
   cartInvariant (items (updateCartItemQuantity (cartOf [orangeLine ''a'' [] 2]) ''a'' 0)) \<and>
   cartInvariant (items (removeItemFromCart (cartOf [orangeLine ''a'' [] 2]) ''a'')) \<and>
   kitchenInvariant (k_cart (sessionWith [kitchenLine ''1'' 5 2])) \<and>
   kitchenInvariant (k_cart (addToCart onlineEnv (hd MENU_ITEMS) (sessionWith [kitchenLine ''1'' 5 2]))) \<and>
   kitchenInvariant (k_cart (updateQuantity onlineEnv ''1'' (- 2) (sessionWith [kitchenLine ''1'' 5 2]))) \<and>
   kitchenInvariant (k_cart (removeFromCart onlineEnv ''1'' (sessionWith [kitchenLine ''1'' 5 2])))"
proof -
  have a: "cartInvariant (items (cartOf [orangeLine ''a'' [] 2]))"
    by (simp add: cartInvariant_def cartOf_def orangeLine_def handleSubmit_item_def)
  have b: "1 \<le> quantity (orangeLine ''b'' [] 3)"
    by (simp add: orangeLine_def handleSubmit_item_def)
  have c: "kitchenInvariant (k_cart (sessionWith [kitchenLine ''1'' 5 2]))"
    by (simp add: kitchenInvariant_def sessionWith_def kitchenLine_def)
  from a b c
    cart_operations_preserve_invariant [of "cartOf [orangeLine ''a'' [] 2]" "''a''" 0
      "orangeLine ''b'' [] 3" _ _ _ _ _ _
      "sessionWith [kitchenLine ''1'' 5 2]" onlineEnv "hd MENU_ITEMS" "''1''" "- 2"]
  show ?thesis by blast
qed

text \<open>
  Add does not keep the invariant with the additions compared as a set: against a line
  with Chia Seeds then Ginger Shot, the item the form submits after toggling Ginger Shot
  and then Chia Seeds is appended, and the cart then holds two equivalent lines.
\<close>

theorem add_breaks_set_invariant_counterexample:
  "cartInvariant (items (cartOf [orangeLine ''a'' [''Chia Seeds'', ''Ginger Shot''] 1])) \<and>
   handleToggleAddition ''Chia Seeds'' (handleToggleAddition ''Ginger Shot'' []) =
     [''Ginger Shot'', ''Chia Seeds''] \<and>
   formQuantity [] = 1 \<and>
   items (handleAddToCart (cartOf [orangeLine ''a'' [''Chia Seeds'', ''Ginger Shot''] 1])
            (orangeLine ''b'' [''Ginger Shot'', ''Chia Seeds''] 1))
     = [orangeLine ''a'' [''Chia Seeds'', ''Ginger Shot''] 1,
        orangeLine ''b'' [''Ginger Shot'', ''Chia Seeds''] 1] \<and>
   specEquivalent (orangeLine ''a'' [''Chia Seeds'', ''Ginger Shot''] 1)
                  (orangeLine ''b'' [''Ginger Shot'', ''Chia Seeds''] 1) \<and>
   \<not> cartInvariant (items (handleAddToCart (cartOf [orangeLine ''a'' [''Chia Seeds'', ''Ginger Shot''] 1])
            (orangeLine ''b'' [''Ginger Shot'', ''Chia Seeds''] 1)))"
proof -
  have 1: "cartInvariant (items (cartOf [orangeLine ''a'' [''Chia Seeds'', ''Ginger Shot''] 1]))"
    by (simp add: cartInvariant_def cartOf_def orangeLine_def handleSubmit_item_def)
  have 2: "handleToggleAddition ''Chia Seeds'' (handleToggleAddition ''Ginger Shot'' []) =
     [''Ginger Shot'', ''Chia Seeds'']"
    by (simp add: handleToggleAddition_def)
  have 3: "items (handleAddToCart (cartOf [orangeLine ''a'' [''Chia Seeds'', ''Ginger Shot''] 1])
            (orangeLine ''b'' [''Ginger Shot'', ''Chia Seeds''] 1))
     = [orangeLine ''a'' [''Chia Seeds'', ''Ginger Shot''] 1,
        orangeLine ''b'' [''Ginger Shot'', ''Chia Seeds''] 1]"
    by (simp add: items_handleAddToCart sameLine_iff)
       (simp add: cartOf_def orangeLine_def handleSubmit_item_def)
  have 4: "specEquivalent (orangeLine ''a'' [''Chia Seeds'', ''Ginger Shot''] 1)
                  (orangeLine ''b'' [''Ginger Shot'', ''Chia Seeds''] 1)"
    by (auto simp: specEquivalent_def specKey_def orangeLine_def handleSubmit_item_def)
  from 4 have "\<not> distinct (map specKey [orangeLine ''a'' [''Chia Seeds'', ''Ginger Shot''] 1,
        orangeLine ''b'' [''Ginger Shot'', ''Chia Seeds''] 1])"
    by (simp add: specEquivalent_def)
  then have 5: "\<not> cartInvariant (items (handleAddToCart (cartOf [orangeLine ''a'' [''Chia Seeds'', ''Ginger Shot''] 1])
            (orangeLine ''b'' [''Ginger Shot'', ''Chia Seeds''] 1)))"
    unfolding 3 by (simp add: cartInvariant_def)
  from 1 2 3 4 5 show ?thesis by simp
qed

subsection \<open>Runs of add commands\<close>















end
